theory Spec2Isabelle
  imports Main "HOL-Library.AList" "HOL-Library.Sublist"
begin

section \<open>Shared vocabulary: effects and exceptions\<close>

text \<open>
  The program talks to its collaborators (logger, persisted document, HTTP, GUI, presence
  client, operating system) through calls whose only visible trace is that they happened.
  Every such call appends one event to a chronological trace, so that "no network request"
  or "the client was disconnected" are statements about the trace. A GUI call carries the
  method's name and its image arguments; \<open>Sys\<close> is a call into the process scanner,
  the localisation module, psutil or the garbage collector.
\<close>

datatype log_level = Debug | Info | Error

datatype event =
    Log log_level
  | DbRead
  | DbWrite
  | HttpGet string
  | ClassConfigFiles "string option"
  | RpcNew
  | RpcConnect
  | RpcUpdate
  | RpcDisconnect
  | Gui string "string list"
  | Sys string

text \<open>
  Python exceptions that leave a function are values. \<open>Raised msg\<close> is an instance of
  \<open>Exception\<close> thrown by a collaborator whose \<open>str()\<close> is \<open>msg\<close>.
\<close>

datatype exn = KeyError | TypeError | AttributeError | SystemExit | Raised string

definition network_calls :: "event list \<Rightarrow> nat" where
  "network_calls t = length (filter (\<lambda>e. case e of HttpGet _ \<Rightarrow> True | _ \<Rightarrow> False) t)"

definition db_reads :: "event list \<Rightarrow> nat" where
  "db_reads t = length (filter (\<lambda>e. e = DbRead) t)"

definition db_writes :: "event list \<Rightarrow> nat" where
  "db_writes t = length (filter (\<lambda>e. e = DbWrite) t)"

section \<open>custom\_maps.py\<close>

subsection \<open>Data\<close>

text \<open>
  A resolved gamemode is the pair (gamemode id, display name). A cache entry is the
  three-element list \<open>[gamemode, fancy name, seconds since epoch]\<close>. The cache is a Python
  dict loaded from JSON: an association list in insertion order, read with \<open>map_of\<close> and
  assigned with \<open>AList.update\<close> (replace in place, else append), which is what
  \<open>d[k] = v\<close> does.
\<close>

type_synonym gamemode = "string \<times> string"
type_synonym cache_entry = "string \<times> string \<times> int"
type_synonym custom_maps_cache = "(string \<times> cache_entry) list"

text \<open>
  Modelled from the spec: \<open>utils.access_db\<close> is not among the sources. Section 6 gives
  it as a document store with \<open>read() -> document\<close> and \<open>write(document)\<close>, of which this
  module touches the \<open>custom_maps\<close> subsection only. The document is that subsection plus
  everything else in it.
\<close>

record 'o db_doc =
  custom_maps :: custom_maps_cache
  other_sections :: 'o

record 'o world =
  db :: "'o db_doc"
  trace :: "event list"

definition emit :: "event \<Rightarrow> 'o world \<Rightarrow> 'o world" where
  "emit e w = w\<lparr>trace := trace w @ [e]\<rparr>"

definition access_db :: "'o db_doc option \<Rightarrow> 'o world \<Rightarrow> 'o db_doc option \<times> 'o world" where
  "access_db write_doc w =
     (case write_doc of
        None \<Rightarrow> (Some (db w), emit DbRead w)
      | Some d \<Rightarrow> (None, emit DbWrite (w\<lparr>db := d\<rparr>)))"

text \<open>The parsed body of the HTTP response, as \<open>r.json()\<close> returns it.\<close>

datatype json =
    JNull
  | JBool bool
  | JNum int
  | JStr string
  | JArr "json list"
  | JObj "(string \<times> json) list"

text \<open>
  What \<open>requests.get(...)\<close> followed by \<open>r.json()\<close> does: one of the two timeouts the
  code names, any other exception (transport error, undecodable body), or a parsed body.
\<close>

datatype http_result = ConnectTimeout | ReadTimeout | OtherException | Json json

text \<open>
  What one call reads from its surroundings: \<open>int(time.time())\<close>, the
  \<open>common_custom\<close> section of maps.json (\<open>load_maps_db\<close>), the setting
  \<open>map_invalidation_hours\<close>, and the remote service (the request is bounded by the
  \<open>timeout\<close> argument, whose expiry is one of the timeout results).
\<close>

record env =
  time_now :: int
  common_custom :: "(string \<times> gamemode) list"
  map_invalidation_hours :: int
  teamwork_api :: "string \<Rightarrow> http_result"

definition gamemodes :: "(string \<times> string) list" where
  "gamemodes =
    [(''ctf'', ''Capture the Flag''), (''control-point'', ''Control Point''),
     (''attack-defend'', ''Attack/Defend''),
     (''medieval-mode'', ''Attack/Defend (Medieval Mode)''),
     (''territorial-control'', ''Territorial Control''), (''payload'', ''Payload''),
     (''payload-race'', ''Payload Race''), (''koth'', ''King of the Hill''),
     (''special-delivery'', ''Special Delivery''), (''mvm'', ''Mann vs. Machine''),
     (''beta-map'', ''Robot Destruction''), (''mannpower'', ''Mannpower''),
     (''passtime'', ''PASS Time''), (''player-destruction'', ''Player Destruction''),
     (''arena'', ''Arena''), (''training'', ''Training''), (''surfing'', ''Surfing''),
     (''trading'', ''Trading''), (''jumping'', ''Jumping''), (''deathmatch'', ''Deathmatch''),
     (''cp-orange'', ''Orange''), (''versus-saxton-hale'', ''Versus Saxton Hale''),
     (''deathrun'', ''Deathrun''), (''achievement'', ''Achievement''),
     (''breakout'', ''Jail Breakout''), (''slender'', ''Slender''),
     (''dodgeball'', ''Dodgeball''), (''mario-kart'', ''Mario Kart''),
     (''prophunt'', ''Prop Hunt''), (''class-wars'', ''Class Wars''),
     (''stop-that-tank'', ''Stop that Tank!'')]"

subsection \<open>access\_custom\_maps\_cache\<close>

text \<open>
  \<open>dict_input\<close> is \<open>None\<close> or a dict. The write branch is taken when \<open>dict_input\<close> is
  truthy, that is a non-empty dict; it returns \<open>None\<close>. Otherwise the persisted cache is
  read and returned.
\<close>

definition access_custom_maps_cache ::
  "custom_maps_cache option \<Rightarrow> 'o world \<Rightarrow> custom_maps_cache option \<times> 'o world" where
  "access_custom_maps_cache dict_input w =
     (case dict_input of
        Some (e # es) \<Rightarrow>
          (case access_db None w of
             (Some d, w1) \<Rightarrow> (None, snd (access_db (Some (d\<lparr>custom_maps := e # es\<rparr>)) w1))
           | (None, w1) \<Rightarrow> (None, w1))
      | _ \<Rightarrow>
          (case access_db None w of
             (Some d, w1) \<Rightarrow> (Some (custom_maps d), w1)
           | (None, w1) \<Rightarrow> (None, w1)))"

subsection \<open>Parsing the API result\<close>

text \<open>
  \<open>map_info['all_gamemodes']\<close>: a dict without the key raises \<open>KeyError\<close>; any other
  JSON value cannot be subscripted by a string and raises \<open>TypeError\<close>.
\<close>

definition getitem :: "json \<Rightarrow> string \<Rightarrow> exn + json" where
  "getitem j k =
     (case j of
        JObj kvs \<Rightarrow> (case map_of kvs k of None \<Rightarrow> Inl KeyError | Some v \<Rightarrow> Inr v)
      | _ \<Rightarrow> Inl TypeError)"

text \<open>
  \<open>for gamemode in map_gamemode\<close>: a list yields its elements, a string its characters
  (one-character strings), a dict its keys; \<open>None\<close>, booleans and numbers are not iterable.
\<close>

definition iterate :: "json \<Rightarrow> exn + json list" where
  "iterate j =
     (case j of
        JArr xs \<Rightarrow> Inr xs
      | JStr s \<Rightarrow> Inr (map (\<lambda>c. JStr [c]) s)
      | JObj kvs \<Rightarrow> Inr (map (\<lambda>kv. JStr (fst kv)) kvs)
      | _ \<Rightarrow> Inl TypeError)"

text \<open>
  The loop of lines 72 to 84 up to its first hit: the first element that is a key of
  \<open>gamemodes\<close>. Membership in a dict's keys hashes the element, so a list or dict element
  raises \<open>TypeError\<close>; \<open>None\<close>, booleans and numbers are hashable and are no key.
\<close>

fun first_gamemode :: "json list \<Rightarrow> exn + string option" where
  "first_gamemode [] = Inr None"
| "first_gamemode (JStr g # rest) =
     (if g \<in> set (map fst gamemodes) then Inr (Some g) else first_gamemode rest)"
| "first_gamemode (JArr _ # rest) = Inl TypeError"
| "first_gamemode (JObj _ # rest) = Inl TypeError"
| "first_gamemode (_ # rest) = first_gamemode rest"

subsection \<open>find\_custom\_map\_gamemode\<close>

text \<open>
  \<open>custom_map_gamemodes[map_filename] = [...]\<close> followed by
  \<open>access_custom_maps_cache(dict_input=custom_map_gamemodes)\<close>.
\<close>

definition store_entry ::
  "string \<Rightarrow> cache_entry \<Rightarrow> custom_maps_cache \<Rightarrow> 'o world \<Rightarrow> 'o world" where
  "store_entry map_filename entry custom_map_gamemodes w =
     snd (access_custom_maps_cache
            (Some (AList.update map_filename entry custom_map_gamemodes)) w)"

text \<open>
  Lines 88 to 96: unrecognized gamemodes. The sentinel is cached with the current time
  and returned.
\<close>

definition cache_unknown ::
  "env \<Rightarrow> string \<Rightarrow> custom_maps_cache \<Rightarrow> 'o world \<Rightarrow> (exn + gamemode) \<times> 'o world" where
  "cache_unknown ev map_filename custom_map_gamemodes w =
     (let w1 = store_entry map_filename (''unknown_map'', ''Unknown gamemode'', time_now ev)
                 custom_map_gamemodes w
      in (Inr (''unknown_map'', ''Unknown gamemode''), emit (Log Debug) w1))"

text \<open>
  Lines 68 to 96: parsing the API result. A \<open>KeyError\<close> is logged and falls through to
  the unrecognized-gamemodes block; a \<open>TypeError\<close> is not caught.
\<close>

definition parse_api_result ::
  "env \<Rightarrow> string \<Rightarrow> custom_maps_cache \<Rightarrow> json \<Rightarrow> 'o world \<Rightarrow> (exn + gamemode) \<times> 'o world" where
  "parse_api_result ev map_filename custom_map_gamemodes map_info w =
     (case getitem map_info ''all_gamemodes'' of
        Inl KeyError \<Rightarrow> cache_unknown ev map_filename custom_map_gamemodes (emit (Log Error) w)
      | Inl e \<Rightarrow> (Inl e, w)
      | Inr map_gamemode \<Rightarrow>
          (let w1 = emit (Log Debug) w in
           case iterate map_gamemode of
             Inl e \<Rightarrow> (Inl e, w1)
           | Inr tags \<Rightarrow>
               (case first_gamemode tags of
                  Inl e \<Rightarrow> (Inl e, w1)
                | Inr None \<Rightarrow> cache_unknown ev map_filename custom_map_gamemodes w1
                | Inr (Some gamemode) \<Rightarrow>
                    (case map_of gamemodes gamemode of
                       None \<Rightarrow>
                         cache_unknown ev map_filename custom_map_gamemodes
                           (emit (Log Error) w1)
                     | Some first_gamemode_fancy \<Rightarrow>
                         (let w2 = emit (Log Debug) w1;
                              w3 = store_entry map_filename
                                     (gamemode, first_gamemode_fancy, time_now ev)
                                     custom_map_gamemodes w2
                          in (Inr (gamemode, first_gamemode_fancy), emit (Log Debug) w3))))))"

text \<open>
  Lines 52 to 96, the handler of the cache miss: one request, then the two \<open>except\<close>
  clauses of the request, then the parse.
\<close>

definition api_lookup ::
  "env \<Rightarrow> string \<Rightarrow> custom_maps_cache \<Rightarrow> 'o world \<Rightarrow> (exn + gamemode) \<times> 'o world" where
  "api_lookup ev map_filename custom_map_gamemodes w =
     (let w1 = emit (HttpGet map_filename) w in
      case teamwork_api ev map_filename of
        ConnectTimeout \<Rightarrow> (Inr (''unknown_map'', ''Unknown gamemode''), emit (Log Debug) w1)
      | ReadTimeout \<Rightarrow> (Inr (''unknown_map'', ''Unknown gamemode''), emit (Log Debug) w1)
      | OtherException \<Rightarrow> (Inr (''unknown_map'', ''Unknown gamemode''), emit (Log Error) w1)
      | Json map_info \<Rightarrow>
          parse_api_result ev map_filename custom_map_gamemodes map_info (emit (Log Debug) w1))"

definition find_custom_map_gamemode ::
  "env \<Rightarrow> string \<Rightarrow> bool \<Rightarrow> 'o world \<Rightarrow> (exn + gamemode) \<times> 'o world" where
  "find_custom_map_gamemode ev map_filename force_api w =
     (if map_filename = [] then
        (Inr (''unknown_map'', ''Unknown gamemode''), emit (Log Error) w)
      else
        let w1 = emit (Log Debug) w in
        case map_of (common_custom ev) map_filename of
          Some gamemode \<Rightarrow> (Inr gamemode, emit (Log Debug) w1)
        | None \<Rightarrow>
            (case access_custom_maps_cache None w1 of
               (None, w2) \<Rightarrow> (Inl TypeError, w2)
             | (Some custom_map_gamemodes, w2) \<Rightarrow>
                 (let w3 = emit (Log Debug) w2 in
                  if force_api then api_lookup ev map_filename custom_map_gamemodes w3
                  else
                    case map_of custom_map_gamemodes map_filename of
                      None \<Rightarrow> api_lookup ev map_filename custom_map_gamemodes w3
                    | Some cached_data \<Rightarrow>
                        if time_now ev - snd (snd cached_data)
                             \<le> map_invalidation_hours ev * 3600
                        then (Inr (fst cached_data, fst (snd cached_data)),
                              emit (Log Debug) w3)
                        else api_lookup ev map_filename custom_map_gamemodes
                               (emit (Log Debug) w3))))"

text \<open>
  Lines 40 to 51 reach the \<open>except KeyError\<close> handler, and with it the request, in
  three ways: \<open>force_api\<close>, no entry under the map's name, or an entry that fails the
  test of line 45.
\<close>

abbreviation needs_lookup :: "env \<Rightarrow> bool \<Rightarrow> custom_maps_cache \<Rightarrow> string \<Rightarrow> bool" where
  "needs_lookup ev force_api c map_filename \<equiv>
     force_api \<or>
     (case map_of c map_filename of
        None \<Rightarrow> True
      | Some cached_data \<Rightarrow>
          \<not> time_now ev - snd (snd cached_data) \<le> map_invalidation_hours ev * 3600)"

text \<open>A remote service that gives the same result to every request (for concrete runs).\<close>

definition service :: "http_result \<Rightarrow> string \<Rightarrow> http_result" where
  "service r url = r"

section \<open>main.py\<close>

subsection \<open>Data\<close>

text \<open>
  One entry of \<open>process_scanner.scan()\<close>, and the dict of the three entries the loop
  reads (\<open>p_data['TF2']\<close>, \<open>p_data['Discord']\<close>, \<open>p_data['Steam']\<close>).
\<close>

record process_info =
  p_running :: bool
  p_pid :: "int option"
  p_path :: "string option"
  p_time :: "int option"

record p_data =
  TF2 :: process_info
  Discord :: process_info
  Steam :: process_info

text \<open>
  The attributes of \<open>game_state.GameState\<close> that main.py reads or assigns. The class
  itself is in game\_state.py, which is not among the sources; its methods are taken as
  parameters below.
\<close>

record game_state =
  game_start_time :: "int option"
  in_menus :: bool
  queued_state :: string
  tf2_class :: string
  tf2_map :: string
  map_fancy :: string
  map_line :: string
  gamemode :: string
  custom_map :: bool
  update_rpc :: bool

text \<open>The presence client object, \<open>ipc.DiscordIPC(...)\<close>: opaque, its calls are events.\<close>

datatype ipc = DiscordIPC

type_synonym parsed = "bool \<times> string \<times> string \<times> string \<times> string \<times> bool"

text \<open>
  The fields that \<open>TF2RichPresense.__init__\<close> sets, without the collaborator objects
  (\<open>log\<close>, \<open>gui\<close>, \<open>process_scanner\<close>, \<open>loc\<close>), whose calls are events, without
  \<open>custom_functions\<close>, which holds functions on this record and is a parameter, and
  without the float \<open>last_name_scan_time\<close>, which main.py never reads.
\<close>

record session =
  game_state :: game_state
  rpc_client :: "ipc option"
  client_connected :: bool
  rpc_connected :: bool
  test_state :: string
  activity :: json
  should_mention_discord :: bool
  should_mention_tf2 :: bool
  should_mention_steam :: bool
  has_checked_class_configs :: bool
  has_seen_kataiser :: bool
  console_log_mtime :: "int option"
  old_console_log_mtime :: "int option"
  loop_iteration :: int
  valid_usernames :: "string set"
  steam_config_mtimes :: "(string \<times> int) list"
  cleanup_primed :: bool
  slow_sleep_time :: bool
  has_set_process_priority :: bool
  kataiser_scan_loop :: int
  did_init_operations :: bool
  no_condebug :: bool
  fast_next_loop :: bool

text \<open>The program state: the object and the trace of its calls to collaborators.\<close>

record prog =
  app :: session
  events :: "event list"

text \<open>
  \<open>custom.TF2RPCustom\<close>, when resources/custom.py exists: three hooks that are handed
  \<open>self\<close> and may change it.
\<close>

record custom =
  before_loop :: "session \<Rightarrow> session"
  loop_middle :: "session \<Rightarrow> session"
  after_loop :: "session \<Rightarrow> session"

text \<open>
  Code of the repository that is not among the sources and that the loop calls:
  \<open>console_log.interpret\<close> and \<open>configs.steam_config_file\<close>, both handed \<open>self\<close>
  (so they return the object as they leave it), the methods \<open>set_bulk\<close>,
  \<open>set_server_data\<close> and \<open>activity\<close> of the game state, and the module constants
  \<open>game_state.excluded_maps\<close> and \<open>game_state.map_fallbacks\<close>.
\<close>

record collab =
  custom_functions :: "custom option"
  interpret_console_log ::
    "session \<Rightarrow> string \<Rightarrow> string set \<Rightarrow> int option \<Rightarrow> parsed option \<times> session"
  steam_config_file :: "session \<Rightarrow> string option \<Rightarrow> string set option \<times> session"
  set_bulk :: "parsed \<Rightarrow> game_state \<Rightarrow> game_state"
  set_server_data :: "string list \<Rightarrow> string set \<Rightarrow> game_state \<Rightarrow> game_state"
  get_activity :: "game_state \<Rightarrow> json"
  excluded_maps :: "string list"
  map_fallbacks :: "(string \<times> string) list"

text \<open>
  What one tick reads from outside the program: whether the GUI is alive, the process
  scan, file modification times, \<open>os.path.join\<close>, three settings, whether
  \<open>connect()\<close>, \<open>update_activity()\<close> and \<open>disconnect()\<close> of the presence client
  raise (the message of the \<open>Exception\<close>, if so), and whether the garbage collector is
  enabled.
\<close>

record tick_env =
  gui_alive :: bool
  process_scan :: p_data
  st_mtime :: "string \<Rightarrow> int"
  os_path_join :: "string \<Rightarrow> string \<Rightarrow> string \<Rightarrow> string"
  top_line :: string
  bottom_line :: string
  check_updates :: bool
  connect_raises :: "string option"
  update_activity_raises :: "string option"
  disconnect_raises :: "string option"
  gc_isenabled :: bool

subsection \<open>Plumbing\<close>

definition effect :: "event \<Rightarrow> prog \<Rightarrow> prog" where
  "effect e p = p\<lparr>events := events p @ [e]\<rparr>"

definition modify :: "(session \<Rightarrow> session) \<Rightarrow> prog \<Rightarrow> prog" where
  "modify f p = p\<lparr>app := f (app p)\<rparr>"

text \<open>Statements in sequence, first to last.\<close>

definition steps :: "('a \<Rightarrow> 'a) list \<Rightarrow> 'a \<Rightarrow> 'a" where
  "steps fs p = fold (\<lambda>f x. f x) fs p"

text \<open>\<open>if self.custom_functions: self.custom_functions.hook(self)\<close>\<close>

definition run_hook :: "(custom \<Rightarrow> session \<Rightarrow> session) \<Rightarrow> collab \<Rightarrow> prog \<Rightarrow> prog" where
  "run_hook hook c p =
     (case custom_functions c of None \<Rightarrow> p | Some cf \<Rightarrow> modify (hook cf) p)"

text \<open>\<open>str.lower()\<close> on the ASCII letters (the names lowered here are ASCII literals).\<close>

definition lower_char :: "char \<Rightarrow> char" where
  "lower_char ch =
     (case map_of (zip ''ABCDEFGHIJKLMNOPQRSTUVWXYZ'' ''abcdefghijklmnopqrstuvwxyz'') ch of
        Some l \<Rightarrow> l | None \<Rightarrow> ch)"

definition lower :: "string \<Rightarrow> string" where
  "lower s = map lower_char s"

subsection \<open>\_\_init\_\_\<close>

text \<open>
  Lines 94 to 118. The game state object is built by \<open>game_state.GameState\<close> and is a
  parameter.
\<close>

definition init :: "game_state \<Rightarrow> bool \<Rightarrow> session" where
  "init gs set_process_priority =
     \<lparr>game_state = gs,
      rpc_client = None,
      client_connected = False,
      rpc_connected = False,
      test_state = ''init'',
      activity = JObj [],
      should_mention_discord = True,
      should_mention_tf2 = True,
      should_mention_steam = True,
      has_checked_class_configs = False,
      has_seen_kataiser = False,
      console_log_mtime = None,
      old_console_log_mtime = None,
      loop_iteration = 0,
      valid_usernames = {},
      steam_config_mtimes = [],
      cleanup_primed = True,
      slow_sleep_time = False,
      has_set_process_priority = (\<not> set_process_priority),
      kataiser_scan_loop = 0,
      did_init_operations = False,
      no_condebug = False,
      fast_next_loop = False\<rparr>"

subsection \<open>necessary\_program\_not\_running\<close>

text \<open>
  Lines 345 to 364. \<open>self.rpc_client.disconnect()\<close> on a client that is \<open>None\<close> raises
  \<open>AttributeError\<close>. The call stands in no \<open>try\<close>: what \<open>disconnect()\<close> raises leaves
  the method, and the tick, before \<open>client_connected\<close> is assigned.
\<close>

definition necessary_program_not_running ::
  "tick_env \<Rightarrow> string \<Rightarrow> string \<Rightarrow> prog \<Rightarrow> exn + prog" where
  "necessary_program_not_running env program_name name_short_arg p =
     (let name_short = (if name_short_arg = [] then program_name else name_short_arg);
          p1 = modify (\<lambda>s. s\<lparr>test_state := ''no '' @ lower name_short,
                                slow_sleep_time := True\<rparr>) p
      in case (if client_connected (app p1) then
                 (case rpc_client (app p1) of
                    None \<Rightarrow> Inl AttributeError
                  | Some client \<Rightarrow>
                      (let p2 = steps [effect (Log Debug), effect RpcDisconnect] p1 in
                       case disconnect_raises env of
                         Some msg \<Rightarrow> Inl (Raised msg)
                       | None \<Rightarrow> Inr (modify (\<lambda>s. s\<lparr>client_connected := False\<rparr>) p2)))
               else Inr p1) of
           Inl e \<Rightarrow> Inl e
         | Inr p3 \<Rightarrow>
             Inr (steps [effect (Gui ''set_state_1'' [''default'']),
                         effect (Gui ''clear_fg_image'' []),
                         effect (Gui ''clear_class_image'' []),
                         effect (Gui ''set_clean_console_log_button_state'' [''False'']),
                         effect (Gui ''clean_console_log'' [''False'']),
                         effect (Gui ''master.title'' []),
                         effect (Log Debug)] p3))"

subsection \<open>send\_rpc\_activity\<close>

text \<open>
  Lines 367 to 385. The body of the \<open>try\<close>, up to the first exception: connecting if the
  client is not connected, then the update, then the flag.
\<close>

definition try_send :: "tick_env \<Rightarrow> prog \<Rightarrow> (exn \<times> prog) + prog" where
  "try_send env p =
     (case (if \<not> client_connected (app p) then
              (let p1 = steps [modify (\<lambda>s. s\<lparr>rpc_client := Some DiscordIPC\<rparr>),
                               effect RpcNew,
                               effect RpcConnect] p
               in case connect_raises env of
                    Some msg \<Rightarrow> Inl (Raised msg, p1)
                  | None \<Rightarrow> Inr p1)
            else Inr p) of
        Inl r \<Rightarrow> Inl r
      | Inr p2 \<Rightarrow>
          (case rpc_client (app p2) of
             None \<Rightarrow> Inl (AttributeError, p2)
           | Some client \<Rightarrow>
               (let p3 = effect RpcUpdate p2 in
                case update_activity_raises env of
                  Some msg \<Rightarrow> Inl (Raised msg, p3)
                | None \<Rightarrow>
                    Inr (steps [effect (Log Info),
                                effect (Log Debug),
                                modify (\<lambda>s. s\<lparr>client_connected := True\<rparr>)] p3))))"

text \<open>
  The \<open>except Exception\<close> clause: the two messages of line 380 are logged, everything else
  is raised again.
\<close>

definition send_rpc_activity :: "tick_env \<Rightarrow> prog \<Rightarrow> exn + prog" where
  "send_rpc_activity env p =
     (case try_send env p of
        Inr p' \<Rightarrow> Inr p'
      | Inl (client_connect_error, p') \<Rightarrow>
          (case client_connect_error of
             Raised msg \<Rightarrow>
               if msg \<in> set [''Can't send data to Discord via IPC.'',
                              ''Can't connect to Discord Client.'']
               then Inr (effect (Log Error) p')
               else Inl client_connect_error
           | _ \<Rightarrow> Inl client_connect_error))"

subsection \<open>init\_operations\<close>

text \<open>Lines 388 to 399.\<close>

definition init_operations :: "tick_env \<Rightarrow> prog \<Rightarrow> prog" where
  "init_operations env p =
     (if \<not> did_init_operations (app p) then
        steps [modify (\<lambda>s. s\<lparr>did_init_operations := True\<rparr>),
               effect (Gui ''safe_update'' []),
               effect (Log Debug),
               effect (Sys ''localization.detect_system_language''),
               effect (Gui ''holiday'' []),
               (if check_updates env then effect (Gui ''check_for_updates'' [''False''])
                else effect (Log Debug))] p
      else p)"

subsection \<open>loop\_body\<close>

text \<open>
  Lines 193 to 213: the Steam config files are scanned when none is known yet or when one
  of the known ones has a newer modification time.
\<close>

definition steam_configs :: "collab \<Rightarrow> tick_env \<Rightarrow> prog \<Rightarrow> prog" where
  "steam_configs c env p =
     (let steam = Steam (process_scan env) in
      if p_running steam then
        (let mtimes = steam_config_mtimes (app p);
             newer = filter (\<lambda>kv. snd kv < st_mtime env (fst kv)) mtimes;
             p1 = steps (map (\<lambda>kv. effect (Log Debug)) newer) p;
             config_scan_needed = (mtimes = [] \<or> newer \<noteq> [])
         in if config_scan_needed then
              (case steam_config_file c (app p1) (p_path steam) of
                 (steam_config_results, s2) \<Rightarrow>
                   (let p2 = p1\<lparr>app := s2\<rparr> in
                    case steam_config_results of
                      None \<Rightarrow> modify (\<lambda>s. s\<lparr>no_condebug := True\<rparr>) p2
                    | Some names \<Rightarrow>
                        if names \<noteq> {} then
                          steps [modify (\<lambda>s. s\<lparr>valid_usernames := valid_usernames s \<union> names\<rparr>),
                                 effect (Log Debug)] p2
                        else modify (\<lambda>s. s\<lparr>no_condebug := True\<rparr>) p2))
            else p1)
      else if p_pid steam \<noteq> None \<or> p_path steam \<noteq> None then effect (Log Error) p
      else p)"

text \<open>Lines 242 to 258: in the main menu.\<close>

definition gui_menus :: "prog \<Rightarrow> prog" where
  "gui_menus p =
     (let gs = game_state (app p) in
      steps [modify (\<lambda>s. s\<lparr>test_state := ''menus''\<rparr>),
             effect (Gui ''set_state_3'' [''main_menu'']),
             effect (Gui ''clear_fg_image'' []),
             effect (Gui ''clear_class_image'' []),
             effect (Gui ''set_fg_image''
               [if queued_state gs = ''Queued for Casual'' then ''casual''
                else if queued_state gs = ''Queued for Competitive'' then ''comp''
                else if sublist ''Queued for MvM'' (queued_state gs) then ''mvm_queued''
                else ''tf2_logo''])] p)"

text \<open>Lines 259 to 288: in a match.\<close>

definition gui_in_game :: "collab \<Rightarrow> tick_env \<Rightarrow> prog \<Rightarrow> prog" where
  "gui_in_game c env p =
     (let server_modes =
            (if top_line env \<in> set [''Player count'', ''Kills''] then [top_line env] else [])
            @ (if bottom_line env \<in> set [''Player count'', ''Kills'']
               then [bottom_line env] else []);
          p1 = steps [modify (\<lambda>s. s\<lparr>test_state := ''in game''\<rparr>),
                      modify (\<lambda>s. s\<lparr>game_state :=
                                set_server_data c server_modes (valid_usernames s)
                                  (game_state s)\<rparr>)] p;
          gs = game_state (app p1);
          bg_image = (if gamemode gs = ''Unknown gamemode'' then ''bg_modes/unknown''
                      else ''bg_modes/'' @ gamemode gs)
      in steps [effect (Gui ''set_state_4'' [bg_image]),
                effect (Gui ''set_class_image'' [tf2_class gs]),
                effect (Gui ''set_fg_image''
                  [if custom_map gs \<or> tf2_map gs \<in> set (excluded_maps c) then
                     (if gamemode gs = ''unknown'' then ''fg_modes/unknown''
                      else ''fg_modes/'' @ gamemode gs)
                   else
                     (case map_of (map_fallbacks c) (tf2_map gs) of
                        Some fallback \<Rightarrow> ''fg_maps/'' @ fallback
                      | None \<Rightarrow> ''fg_maps/'' @ tf2_map gs)])] p1)"

text \<open>Lines 290 to 303: the presence is sent when the game state asks for it.\<close>

definition publish :: "collab \<Rightarrow> tick_env \<Rightarrow> prog \<Rightarrow> exn + prog" where
  "publish c env p =
     (if update_rpc (game_state (app p)) then
        send_rpc_activity env
          (steps [modify (\<lambda>s. s\<lparr>activity := get_activity c (game_state s)\<rparr>),
                  run_hook loop_middle c] p)
      else Inr (steps [effect (Log Debug), run_hook loop_middle c] p))"

text \<open>
  Lines 216 to 222: the class config files are checked when the flag says they have not
  been. (The test of line 216 cannot hold where it stands, the branch being taken only when
  Steam is running.)
\<close>

definition check_class_configs :: "tick_env \<Rightarrow> prog \<Rightarrow> prog" where
  "check_class_configs env p =
     (let tf2 = TF2 (process_scan env);
          p1 = (if \<not> p_running (Steam (process_scan env)) \<and> p_running tf2
                then effect (Log Error) p else p)
      in if \<not> has_checked_class_configs (app p1) then
           steps [effect (ClassConfigFiles (p_path tf2)),
                  modify (\<lambda>s. s\<lparr>has_checked_class_configs := True\<rparr>)] p1
         else p1)"

text \<open>Lines 227 to 232: the console log is interpreted and its result, if any, stored.\<close>

definition read_console_log :: "collab \<Rightarrow> tick_env \<Rightarrow> string \<Rightarrow> prog \<Rightarrow> prog" where
  "read_console_log c env tf2_path p =
     (case interpret_console_log c (app p)
             (os_path_join env tf2_path ''tf'' ''console.log'')
             (valid_usernames (app p)) (p_time (TF2 (process_scan env))) of
        (console_log_parsed, s1) \<Rightarrow>
          (let p1 = modify (\<lambda>s. s\<lparr>old_console_log_mtime := console_log_mtime s\<rparr>)
                      (p\<lparr>app := s1\<rparr>)
           in case console_log_parsed of
                Some tuple \<Rightarrow>
                  modify (\<lambda>s. s\<lparr>game_state := set_bulk c tuple (game_state s)\<rparr>) p1
              | None \<Rightarrow> p1))"

text \<open>
  Lines 216 to 306: the three programs are running. \<open>os.path.join\<close> on a path that is
  \<open>None\<close>, and \<open>time.time() - None\<close>, raise \<open>TypeError\<close>.
\<close>

definition all_running :: "collab \<Rightarrow> tick_env \<Rightarrow> prog \<Rightarrow> exn + prog" where
  "all_running c env p =
     (let tf2 = TF2 (process_scan env);
          p1 = steps [check_class_configs env,
                      modify (\<lambda>s. s\<lparr>game_state :=
                                (game_state s)\<lparr>game_start_time := p_time tf2\<rparr>\<rparr>),
                      effect (Gui ''set_clean_console_log_button_state'' [''True''])] p
      in case p_path tf2 of
           None \<Rightarrow> Inl TypeError
         | Some tf2_path \<Rightarrow>
             (let p2 = read_console_log c env tf2_path p1 in
              case p_time tf2 of
                None \<Rightarrow> Inl TypeError
              | Some started \<Rightarrow>
                  (case publish c env
                          (if in_menus (game_state (app p2)) then gui_menus p2
                           else gui_in_game c env p2) of
                     Inl e \<Rightarrow> Inl e
                   | Inr p3 \<Rightarrow>
                       Inr (steps [effect (Gui ''master.title'' []),
                                   effect (Log Debug)] p3))))"

text \<open>Lines 215 and 308 to 317: the branch on the three programs.\<close>

definition branch :: "collab \<Rightarrow> tick_env \<Rightarrow> prog \<Rightarrow> exn + prog" where
  "branch c env p =
     (let pd = process_scan env in
      if p_running (TF2 pd) \<and> p_running (Discord pd) \<and> p_running (Steam pd) then
        all_running c env p
      else if \<not> p_running (TF2 pd) then
        (case necessary_program_not_running env ''Team Fortress 2'' ''TF2'' p of
           Inl e \<Rightarrow> Inl e
         | Inr p' \<Rightarrow> Inr (modify (\<lambda>s. s\<lparr>should_mention_tf2 := False\<rparr>) p'))
      else if \<not> p_running (Discord pd) then
        (case necessary_program_not_running env ''Discord'' '''' p of
           Inl e \<Rightarrow> Inl e
         | Inr p' \<Rightarrow> Inr (modify (\<lambda>s. s\<lparr>should_mention_discord := False\<rparr>) p'))
      else
        (case necessary_program_not_running env ''Steam'' '''' p of
           Inl e \<Rightarrow> Inl e
         | Inr p' \<Rightarrow> Inr (modify (\<lambda>s. s\<lparr>should_mention_steam := False\<rparr>) p')))"

text \<open>Lines 319 to 343: what every tick does after the branch.\<close>

definition after_branch :: "collab \<Rightarrow> tick_env \<Rightarrow> prog \<Rightarrow> prog" where
  "after_branch c env p =
     (let p1 = steps [run_hook after_loop c,
                      effect (Gui ''safe_update'' []),
                      init_operations env] p;
          p2 = (if no_condebug (app p1) then
                  steps [effect (Gui ''no_condebug_warning'' []),
                         modify (\<lambda>s. s\<lparr>fast_next_loop := True\<rparr>)] p1
                else p1);
          p3 = (if \<not> has_set_process_priority (app p2) then
                  steps [effect (Sys ''nice''), effect (Sys ''ionice''),
                         effect (Sys ''nice''), effect (Sys ''ionice''),
                         effect (Sys ''nice''), effect (Sys ''ionice''),
                         effect (Log Debug),
                         modify (\<lambda>s. s\<lparr>has_set_process_priority := True\<rparr>)] p2
                else p2)
      in if \<not> gc_isenabled env then
           steps [effect (Sys ''gc.enable''), effect (Sys ''gc.collect''),
                  effect (Log Debug)] p3
         else p3)"

text \<open>Lines 181 to 213: what every tick does before the branch.\<close>

definition before_branch :: "collab \<Rightarrow> tick_env \<Rightarrow> prog \<Rightarrow> prog" where
  "before_branch c env p =
     steps [modify (\<lambda>s. s\<lparr>slow_sleep_time := False\<rparr>),
            modify (\<lambda>s. s\<lparr>loop_iteration := loop_iteration s + 1\<rparr>),
            effect (Log Debug),
            modify (\<lambda>s. s\<lparr>no_condebug := False\<rparr>),
            modify (\<lambda>s. s\<lparr>fast_next_loop := False\<rparr>),
            run_hook before_loop c,
            effect (Sys ''process_scanner.scan''),
            steam_configs c env] p"

text \<open>Lines 175 to 343. A GUI that is no longer alive ends the program.\<close>

definition loop_body :: "collab \<Rightarrow> tick_env \<Rightarrow> prog \<Rightarrow> exn + prog" where
  "loop_body c env p =
     (if \<not> gui_alive env then Inl SystemExit
      else
        case branch c env (before_branch c env p) of
          Inl e \<Rightarrow> Inl e
        | Inr p2 \<Rightarrow> Inr (after_branch c env p2))"

subsection \<open>run\<close>

text \<open>
  Lines 161 to 171. The loop never ends by itself; a run is the ticks of a finite list of
  surroundings, one after the other, up to the first exception. Between two ticks the
  program sleeps \<open>wait_time_slow\<close> seconds when the tick asked for the slow rate, else
  \<open>wait_time\<close>.
\<close>

fun run :: "collab \<Rightarrow> tick_env list \<Rightarrow> prog \<Rightarrow> exn + prog" where
  "run c [] p = Inr p"
| "run c (env # envs) p =
     (case loop_body c env p of Inl e \<Rightarrow> Inl e | Inr p' \<Rightarrow> run c envs p')"

definition sleep_time :: "int \<Rightarrow> int \<Rightarrow> session \<Rightarrow> int" where
  "sleep_time wait_time_slow wait_time s =
     (if slow_sleep_time s then wait_time_slow else wait_time)"

text \<open>The test of line 215.\<close>

abbreviation all_three_running :: "tick_env \<Rightarrow> bool" where
  "all_three_running env \<equiv>
     p_running (TF2 (process_scan env)) \<and> p_running (Discord (process_scan env))
     \<and> p_running (Steam (process_scan env))"

text \<open>Counters on the trace.\<close>

definition class_config_runs :: "event list \<Rightarrow> nat" where
  "class_config_runs t =
     length (filter (\<lambda>e. case e of ClassConfigFiles _ \<Rightarrow> True | _ \<Rightarrow> False) t)"

definition disconnects :: "event list \<Rightarrow> nat" where
  "disconnects t = length (filter (\<lambda>e. e = RpcDisconnect) t)"

text \<open>
  A function handed \<open>self\<close> keeps the fields that main.py alone owns when it leaves them
  as they are: the connection to the presence client, the state name, the sleep rate and
  the class-config flag. The collaborators of a tick are well-behaved when the hooks, the
  console log interpreter and the Steam config reader all do.
\<close>

definition keeps :: "(session \<Rightarrow> session) \<Rightarrow> bool" where
  "keeps f =
     (\<forall>s. client_connected (f s) = client_connected s
        \<and> rpc_client (f s) = rpc_client s
        \<and> test_state (f s) = test_state s
        \<and> slow_sleep_time (f s) = slow_sleep_time s
        \<and> has_checked_class_configs (f s) = has_checked_class_configs s)"

definition well_behaved :: "collab \<Rightarrow> bool" where
  "well_behaved c =
     ((case custom_functions c of
         None \<Rightarrow> True
       | Some cf \<Rightarrow> keeps (before_loop cf) \<and> keeps (loop_middle cf) \<and> keeps (after_loop cf))
      \<and> (\<forall>file names started. keeps (\<lambda>s. snd (interpret_console_log c s file names started)))
      \<and> (\<forall>steam_path. keeps (\<lambda>s. snd (steam_config_file c s steam_path))))"

text \<open>Collaborators that do nothing and a surroundings record to vary (for concrete runs).\<close>

definition idle :: collab where
  "idle =
     \<lparr>custom_functions = None,
      interpret_console_log = (\<lambda>s file names started. (None, s)),
      steam_config_file = (\<lambda>s steam_path. (None, s)),
      set_bulk = (\<lambda>tuple gs. gs),
      set_server_data = (\<lambda>modes names gs. gs),
      get_activity = (\<lambda>gs. JObj []),
      excluded_maps = [],
      map_fallbacks = []\<rparr>"

definition process :: "bool \<Rightarrow> process_info" where
  "process up =
     (if up then \<lparr>p_running = True, p_pid = Some 1, p_path = Some ''C:'', p_time = Some 0\<rparr>
      else \<lparr>p_running = False, p_pid = None, p_path = None, p_time = None\<rparr>)"

definition surroundings :: "bool \<Rightarrow> bool \<Rightarrow> bool \<Rightarrow> tick_env" where
  "surroundings tf2_up discord_up steam_up =
     \<lparr>gui_alive = True,
      process_scan = \<lparr>TF2 = process tf2_up, Discord = process discord_up,
                      Steam = process steam_up\<rparr>,
      st_mtime = (\<lambda>file. 0),
      os_path_join = (\<lambda>a b d. a @ ''/'' @ b @ ''/'' @ d),
      top_line = ''Map'',
      bottom_line = ''Class'',
      check_updates = False,
      connect_raises = None,
      update_activity_raises = None,
      disconnect_raises = None,
      gc_isenabled = True\<rparr>"

definition menu_state :: game_state where
  "menu_state =
     \<lparr>game_start_time = None, in_menus = True, queued_state = ''Not queued'',
      tf2_class = '''', tf2_map = '''', map_fancy = '''', map_line = '''',
      gamemode = '''', custom_map = False, update_rpc = True\<rparr>"

section \<open>Properties of custom\_maps.py\<close>

subsection \<open>Effects of the building blocks\<close>

lemma update_not_Nil: "AList.update k v al \<noteq> []"
  by (cases al) auto

lemma trace_emit [simp]: "trace (emit e w) = trace w @ [e]"
  by (simp add: emit_def)

lemma db_emit [simp]: "db (emit e w) = db w"
  by (simp add: emit_def)

lemma network_calls_Nil [simp]: "network_calls [] = 0"
  by (simp add: network_calls_def)

lemma network_calls_Cons [simp]:
  "network_calls (e # t) = (case e of HttpGet _ \<Rightarrow> 1 | _ \<Rightarrow> 0) + network_calls t"
  by (cases e) (simp_all add: network_calls_def)

lemma network_calls_append [simp]:
  "network_calls (t @ u) = network_calls t + network_calls u"
  by (simp add: network_calls_def)

lemma db_reads_simps [simp]:
  "db_reads [] = 0"
  "db_reads (e # t) = (if e = DbRead then 1 else 0) + db_reads t"
  "db_reads (t @ u) = db_reads t + db_reads u"
  by (simp_all add: db_reads_def)

lemma db_writes_simps [simp]:
  "db_writes [] = 0"
  "db_writes (e # t) = (if e = DbWrite then 1 else 0) + db_writes t"
  "db_writes (t @ u) = db_writes t + db_writes u"
  by (simp_all add: db_writes_def)

lemma access_cache_read:
  "access_custom_maps_cache None w = (Some (custom_maps (db w)), emit DbRead w)"
  by (simp add: access_custom_maps_cache_def access_db_def)

lemma access_cache_empty:
  "access_custom_maps_cache (Some []) w = (Some (custom_maps (db w)), emit DbRead w)"
  by (simp add: access_custom_maps_cache_def access_db_def)

lemma access_cache_write:
  "access_custom_maps_cache (Some (e # es)) w =
     (None, emit DbWrite (emit DbRead w\<lparr>db := (db w)\<lparr>custom_maps := e # es\<rparr>\<rparr>))"
  by (simp add: access_custom_maps_cache_def access_db_def emit_def)

lemma store_entry_eq:
  "store_entry k v c w =
     emit DbWrite (emit DbRead w\<lparr>db := (db w)\<lparr>custom_maps := AList.update k v c\<rparr>\<rparr>)"
proof (cases "AList.update k v c")
  case Nil
  then show ?thesis by (simp add: update_not_Nil)
next
  case (Cons e es)
  then show ?thesis by (simp add: store_entry_def access_cache_write)
qed

lemma db_store_entry [simp]:
  "db (store_entry k v c w) = (db w)\<lparr>custom_maps := AList.update k v c\<rparr>"
  by (simp add: store_entry_eq)

lemma trace_store_entry [simp]:
  "trace (store_entry k v c w) = trace w @ [DbRead, DbWrite]"
  by (simp add: store_entry_eq)

text \<open>On a list of string tags the loop is a search for the first known tag.\<close>

lemma first_gamemode_tags:
  "first_gamemode (map JStr tags) = Inr (List.find (\<lambda>g. g \<in> set (map fst gamemodes)) tags)"
  by (induction tags) simp_all

lemma known_gamemode_fancy:
  "g \<in> set (map fst gamemodes) \<Longrightarrow> \<exists>fancy. map_of gamemodes g = Some fancy"
  by (metis map_of_eq_None_iff not_Some_eq set_map)

subsection \<open>The paths through find\_custom\_map\_gamemode\<close>

text \<open>From entry to the cache decision, for a non-blank map that maps.json does not list.\<close>

lemma find_custom_map_gamemode_custom:
  assumes "map_filename \<noteq> []" and "map_of (common_custom ev) map_filename = None"
  shows "find_custom_map_gamemode ev map_filename force_api w =
     (let c = custom_maps (db w); w3 = emit (Log Debug) (emit DbRead (emit (Log Debug) w)) in
      if force_api then api_lookup ev map_filename c w3
      else case map_of c map_filename of
             None \<Rightarrow> api_lookup ev map_filename c w3
           | Some cached_data \<Rightarrow>
               if time_now ev - snd (snd cached_data) \<le> map_invalidation_hours ev * 3600
               then (Inr (fst cached_data, fst (snd cached_data)), emit (Log Debug) w3)
               else api_lookup ev map_filename c (emit (Log Debug) w3))"
  using assms
  by (simp add: find_custom_map_gamemode_def access_cache_read Let_def split: option.split)

lemma find_custom_map_gamemode_lookup:
  assumes "map_filename \<noteq> []" and "map_of (common_custom ev) map_filename = None"
    and "needs_lookup ev force_api (custom_maps (db w)) map_filename"
  shows "\<exists>w3. find_custom_map_gamemode ev map_filename force_api w =
            api_lookup ev map_filename (custom_maps (db w)) w3
          \<and> db w3 = db w \<and> network_calls (trace w3) = network_calls (trace w)"
  using assms
  by (auto simp add: find_custom_map_gamemode_custom Let_def split: option.splits)

lemma api_lookup_no_cache:
  assumes "teamwork_api ev map_filename \<in> {ConnectTimeout, ReadTimeout, OtherException}"
  shows "\<exists>w'. api_lookup ev map_filename c w = (Inr (''unknown_map'', ''Unknown gamemode''), w')
           \<and> db w' = db w \<and> network_calls (trace w') = network_calls (trace w) + 1"
  using assms by (auto simp add: api_lookup_def Let_def)

lemma api_lookup_json:
  assumes "teamwork_api ev map_filename = Json map_info"
  shows "api_lookup ev map_filename c w =
           parse_api_result ev map_filename c map_info
             (emit (Log Debug) (emit (HttpGet map_filename) w))"
  using assms by (simp add: api_lookup_def Let_def)

lemma parse_api_result_found:
  assumes "getitem map_info ''all_gamemodes'' = Inr (JArr (map JStr tags))"
    and "List.find (\<lambda>g. g \<in> set (map fst gamemodes)) tags = Some tag"
    and "map_of gamemodes tag = Some fancy"
  shows "\<exists>w'. parse_api_result ev map_filename c map_info w = (Inr (tag, fancy), w')
           \<and> db w' = (db w)\<lparr>custom_maps :=
                          AList.update map_filename (tag, fancy, time_now ev) c\<rparr>
           \<and> network_calls (trace w') = network_calls (trace w)"
  using assms
  by (simp add: parse_api_result_def iterate_def first_gamemode_tags Let_def)

lemma parse_api_result_unknown:
  assumes "map_of body ''all_gamemodes'' = None
           \<or> (\<exists>tags. map_of body ''all_gamemodes'' = Some (JArr (map JStr tags))
                 \<and> list_all (\<lambda>g. g \<notin> set (map fst gamemodes)) tags)"
  shows "\<exists>w'. parse_api_result ev map_filename c (JObj body) w
                 = (Inr (''unknown_map'', ''Unknown gamemode''), w')
      \<and> db w' = (db w)\<lparr>custom_maps :=
             AList.update map_filename (''unknown_map'', ''Unknown gamemode'', time_now ev) c\<rparr>
      \<and> network_calls (trace w') = network_calls (trace w)"
  using assms
proof
  assume "map_of body ''all_gamemodes'' = None"
  then show ?thesis
    by (simp add: parse_api_result_def getitem_def cache_unknown_def Let_def)
next
  assume "\<exists>tags. map_of body ''all_gamemodes'' = Some (JArr (map JStr tags))
                 \<and> list_all (\<lambda>g. g \<notin> set (map fst gamemodes)) tags"
  then obtain tags where t: "map_of body ''all_gamemodes'' = Some (JArr (map JStr tags))"
    "list_all (\<lambda>g. g \<notin> set (map fst gamemodes)) tags" by blast
  from t(2) have "List.find (\<lambda>g. g \<in> set (map fst gamemodes)) tags = None"
    by (simp add: find_None_iff list_all_iff)
  with t(1) show ?thesis
    by (simp add: parse_api_result_def getitem_def iterate_def first_gamemode_tags
        cache_unknown_def Let_def)
qed

text \<open>Whatever the service answers, the handler of the cache miss sends one request.\<close>

lemma parse_api_result_calls:
  "network_calls (trace (snd (parse_api_result ev map_filename c map_info w)))
     = network_calls (trace w)"
  by (auto simp add: parse_api_result_def cache_unknown_def Let_def
      split: sum.splits exn.splits option.splits)

lemma api_lookup_calls:
  "network_calls (trace (snd (api_lookup ev map_filename c w))) = network_calls (trace w) + 1"
  by (cases "teamwork_api ev map_filename")
     (simp_all add: api_lookup_def Let_def parse_api_result_calls)

subsection \<open>Request failures\<close>

text \<open>
  C1, as the code has it: when the request fails otherwise than by a connect or read timeout
  (the \<open>except Exception\<close> clause of line 64), the sentinel pair is returned and nothing is
  written: the persisted document is unchanged, so the same call repeated at once sends
  the request again. The map is not blank, not in maps.json, and the call reaches the
  request (forced, no entry, or an entry older than the TTL).
\<close>

theorem other_failure_not_cached:
  assumes "map_filename \<noteq> []"
    and "map_of (common_custom ev) map_filename = None"
    and "needs_lookup ev force_api (custom_maps (db w)) map_filename"
    and "teamwork_api ev map_filename = OtherException"
  shows "\<exists>w'. find_custom_map_gamemode ev map_filename force_api w
                 = (Inr (''unknown_map'', ''Unknown gamemode''), w')
           \<and> db w' = db w
           \<and> network_calls (trace w') = network_calls (trace w) + 1
           \<and> network_calls (trace (snd (find_custom_map_gamemode ev map_filename force_api w')))
               = network_calls (trace w') + 1"
proof -
  from assms(1-3) obtain w3 where w3:
    "find_custom_map_gamemode ev map_filename force_api w =
       api_lookup ev map_filename (custom_maps (db w)) w3"
    "db w3 = db w" "network_calls (trace w3) = network_calls (trace w)"
    using find_custom_map_gamemode_lookup by blast
  from assms(4) have "teamwork_api ev map_filename \<in> {ConnectTimeout, ReadTimeout, OtherException}"
    by auto
  from api_lookup_no_cache [OF this, of "custom_maps (db w)" w3]
  obtain w' where w':
    "api_lookup ev map_filename (custom_maps (db w)) w3
       = (Inr (''unknown_map'', ''Unknown gamemode''), w')"
    "db w' = db w3" "network_calls (trace w') = network_calls (trace w3) + 1"
    by blast
  have again: "needs_lookup ev force_api (custom_maps (db w')) map_filename"
    using assms(3) w'(2) w3(2) by simp
  from find_custom_map_gamemode_lookup [OF assms(1,2) again]
  obtain v where v:
    "find_custom_map_gamemode ev map_filename force_api w' =
       api_lookup ev map_filename (custom_maps (db w')) v"
    "network_calls (trace v) = network_calls (trace w')"
    by blast
  have retry: "network_calls (trace (snd (find_custom_map_gamemode ev map_filename force_api w')))
      = network_calls (trace w') + 1"
    using v by (simp add: api_lookup_calls)
  show ?thesis
    using w3 w' retry by simp
qed

theorem other_failure_not_cached_witness:
  "fst (find_custom_map_gamemode
     \<lparr>time_now = 1600000000, common_custom = [], map_invalidation_hours = 24,
      teamwork_api = service OtherException\<rparr>
     ''ytsb8eitybw'' False
     \<lparr>db = \<lparr>custom_maps = [], other_sections = ()\<rparr>, trace = []\<rparr>)
   = Inr (''unknown_map'', ''Unknown gamemode'')
   \<and> db (snd (find_custom_map_gamemode
     \<lparr>time_now = 1600000000, common_custom = [], map_invalidation_hours = 24,
      teamwork_api = service OtherException\<rparr>
     ''ytsb8eitybw'' False
     \<lparr>db = \<lparr>custom_maps = [], other_sections = ()\<rparr>, trace = []\<rparr>))
   = \<lparr>custom_maps = [], other_sections = ()\<rparr>"
proof -
  let ?ev = "\<lparr>time_now = 1600000000, common_custom = [], map_invalidation_hours = 24,
      teamwork_api = service OtherException\<rparr>"
  let ?w = "\<lparr>db = \<lparr>custom_maps = [], other_sections = ()\<rparr>, trace = []\<rparr>"
  have h1: "''ytsb8eitybw'' \<noteq> []" by simp
  have h2: "map_of (common_custom ?ev) ''ytsb8eitybw'' = None" by simp
  have h3: "needs_lookup ?ev False (custom_maps (db ?w)) ''ytsb8eitybw''" by simp
  have h4: "teamwork_api ?ev ''ytsb8eitybw'' = OtherException" by (simp add: service_def)
  from other_failure_not_cached [OF h1 h2 h3 h4]
  show ?thesis by auto
qed

text \<open>
  C1, as it is stated, fails: after a transport error on a map with no entry, the cache
  still has no entry for it, and the second of two calls in a row sends a second request.
\<close>

theorem other_failure_cached_counterexample:
  "map_of (custom_maps (db (snd (find_custom_map_gamemode
       \<lparr>time_now = 1600000000, common_custom = [], map_invalidation_hours = 24,
        teamwork_api = service OtherException\<rparr>
       ''ytsb8eitybw'' False
       \<lparr>db = \<lparr>custom_maps = [], other_sections = ()\<rparr>, trace = []\<rparr>))))
     ''ytsb8eitybw''
   = None
   \<and> network_calls (trace (snd (find_custom_map_gamemode
       \<lparr>time_now = 1600000000, common_custom = [], map_invalidation_hours = 24,
        teamwork_api = service OtherException\<rparr>
       ''ytsb8eitybw'' False
       (snd (find_custom_map_gamemode
         \<lparr>time_now = 1600000000, common_custom = [], map_invalidation_hours = 24,
          teamwork_api = service OtherException\<rparr>
         ''ytsb8eitybw'' False
         \<lparr>db = \<lparr>custom_maps = [], other_sections = ()\<rparr>, trace = []\<rparr>)))))
   = 2"
  by (simp add: find_custom_map_gamemode_def access_cache_read api_lookup_def service_def
      Let_def)

text \<open>
  C6: when the request ends in a connect or read timeout, the sentinel pair is returned and
  the persisted document is unchanged, so that a later call for the same map (same static
  table and TTL, the clock not earlier) sends the request again. The map is not blank, not
  in maps.json, and the call reaches the request.
\<close>

theorem timeout_not_cached:
  assumes "map_filename \<noteq> []"
    and "map_of (common_custom ev) map_filename = None"
    and "needs_lookup ev force_api (custom_maps (db w)) map_filename"
    and "teamwork_api ev map_filename = ConnectTimeout
         \<or> teamwork_api ev map_filename = ReadTimeout"
    and "common_custom ev2 = common_custom ev"
    and "map_invalidation_hours ev2 = map_invalidation_hours ev"
    and "time_now ev \<le> time_now ev2"
  shows "\<exists>w'. find_custom_map_gamemode ev map_filename force_api w
                 = (Inr (''unknown_map'', ''Unknown gamemode''), w')
           \<and> db w' = db w
           \<and> network_calls (trace w') = network_calls (trace w) + 1
           \<and> network_calls (trace (snd (find_custom_map_gamemode ev2 map_filename force_api w')))
               = network_calls (trace w') + 1"
proof -
  from assms(1-3) obtain w3 where w3:
    "find_custom_map_gamemode ev map_filename force_api w =
       api_lookup ev map_filename (custom_maps (db w)) w3"
    "db w3 = db w" "network_calls (trace w3) = network_calls (trace w)"
    using find_custom_map_gamemode_lookup by blast
  from assms(4) have "teamwork_api ev map_filename \<in> {ConnectTimeout, ReadTimeout, OtherException}"
    by auto
  from api_lookup_no_cache [OF this, of "custom_maps (db w)" w3]
  obtain w' where w':
    "api_lookup ev map_filename (custom_maps (db w)) w3
       = (Inr (''unknown_map'', ''Unknown gamemode''), w')"
    "db w' = db w3" "network_calls (trace w') = network_calls (trace w3) + 1"
    by blast
  have again: "needs_lookup ev2 force_api (custom_maps (db w')) map_filename"
    using assms(3,6,7) w'(2) w3(2) by (auto split: option.splits)
  have static2: "map_of (common_custom ev2) map_filename = None"
    using assms(2,5) by simp
  from find_custom_map_gamemode_lookup [OF assms(1) static2 again]
  obtain v where v:
    "find_custom_map_gamemode ev2 map_filename force_api w' =
       api_lookup ev2 map_filename (custom_maps (db w')) v"
    "network_calls (trace v) = network_calls (trace w')"
    by blast
  have retry: "network_calls (trace (snd (find_custom_map_gamemode ev2 map_filename force_api w')))
      = network_calls (trace w') + 1"
    using v by (simp add: api_lookup_calls)
  show ?thesis
    using w3 w' retry by simp
qed

theorem timeout_not_cached_witness:
  "fst (find_custom_map_gamemode
     \<lparr>time_now = 1600000000, common_custom = [], map_invalidation_hours = 24,
      teamwork_api = service ReadTimeout\<rparr>
     ''cp_catwalk_a5c'' False
     \<lparr>db = \<lparr>custom_maps = [(''cp_catwalk_a5c'', ''control-point'', ''Control Point'', 1500000000)],
             other_sections = ()\<rparr>, trace = []\<rparr>)
   = Inr (''unknown_map'', ''Unknown gamemode'')
   \<and> db (snd (find_custom_map_gamemode
     \<lparr>time_now = 1600000000, common_custom = [], map_invalidation_hours = 24,
      teamwork_api = service ReadTimeout\<rparr>
     ''cp_catwalk_a5c'' False
     \<lparr>db = \<lparr>custom_maps = [(''cp_catwalk_a5c'', ''control-point'', ''Control Point'', 1500000000)],
             other_sections = ()\<rparr>, trace = []\<rparr>))
   = \<lparr>custom_maps = [(''cp_catwalk_a5c'', ''control-point'', ''Control Point'', 1500000000)],
      other_sections = ()\<rparr>"
proof -
  let ?ev = "\<lparr>time_now = 1600000000, common_custom = [], map_invalidation_hours = 24,
      teamwork_api = service ReadTimeout\<rparr>"
  let ?w = "\<lparr>db = \<lparr>custom_maps =
      [(''cp_catwalk_a5c'', ''control-point'', ''Control Point'', 1500000000)],
      other_sections = ()\<rparr>, trace = []\<rparr>"
  have h1: "''cp_catwalk_a5c'' \<noteq> []" by simp
  have h2: "map_of (common_custom ?ev) ''cp_catwalk_a5c'' = None" by simp
  have h3: "needs_lookup ?ev False (custom_maps (db ?w)) ''cp_catwalk_a5c''" by simp
  have h4: "teamwork_api ?ev ''cp_catwalk_a5c'' = ConnectTimeout
      \<or> teamwork_api ?ev ''cp_catwalk_a5c'' = ReadTimeout" by (simp add: service_def)
  have h5: "common_custom ?ev = common_custom ?ev" by simp
  have h6: "map_invalidation_hours ?ev = map_invalidation_hours ?ev" by simp
  have h7: "time_now ?ev \<le> time_now ?ev" by simp
  from timeout_not_cached [OF h1 h2 h3 h4 h5 h6 h7]
  show ?thesis by auto
qed

subsection \<open>The static table and the cache\<close>

text \<open>
  C5: a (non-blank) map that maps.json lists under \<open>common_custom\<close> gets the table's value,
  whatever \<open>force_api\<close> is; the call logs twice and does nothing else: no read of the
  persisted document, no write, no request.
\<close>

theorem static_table_first:
  assumes "map_filename \<noteq> []"
    and "map_of (common_custom ev) map_filename = Some tag"
  shows "\<exists>w'. find_custom_map_gamemode ev map_filename force_api w = (Inr tag, w')
           \<and> trace w' = trace w @ [Log Debug, Log Debug]
           \<and> db w' = db w
           \<and> db_reads (trace w') = db_reads (trace w)
           \<and> db_writes (trace w') = db_writes (trace w)
           \<and> network_calls (trace w') = network_calls (trace w)"
  using assms by (simp add: find_custom_map_gamemode_def Let_def)

theorem static_table_first_witness:
  "find_custom_map_gamemode
     \<lparr>time_now = 1600000000,
      common_custom = [(''cp_orange_x3'', ''cp-orange'', ''Orange'')],
      map_invalidation_hours = 24, teamwork_api = service ReadTimeout\<rparr>
     ''cp_orange_x3'' True
     \<lparr>db = \<lparr>custom_maps = [], other_sections = ()\<rparr>, trace = []\<rparr>
   = (Inr (''cp-orange'', ''Orange''),
      \<lparr>db = \<lparr>custom_maps = [], other_sections = ()\<rparr>, trace = [Log Debug, Log Debug]\<rparr>)"
proof -
  let ?ev = "\<lparr>time_now = 1600000000,
      common_custom = [(''cp_orange_x3'', ''cp-orange'', ''Orange'')],
      map_invalidation_hours = 24, teamwork_api = service ReadTimeout\<rparr>"
  let ?w = "\<lparr>db = \<lparr>custom_maps = [], other_sections = ()\<rparr>, trace = []\<rparr>"
  have h1: "''cp_orange_x3'' \<noteq> []" by simp
  have h2: "map_of (common_custom ?ev) ''cp_orange_x3'' = Some (''cp-orange'', ''Orange'')"
    by simp
  from static_table_first [OF h1 h2, of True ?w]
  obtain w' where w': "find_custom_map_gamemode ?ev ''cp_orange_x3'' True ?w
      = (Inr (''cp-orange'', ''Orange''), w')"
    "trace w' = trace ?w @ [Log Debug, Log Debug]" "db w' = db ?w"
    by blast
  from w'(2,3) have "w' = \<lparr>db = \<lparr>custom_maps = [], other_sections = ()\<rparr>,
      trace = [Log Debug, Log Debug]\<rparr>"
    by (cases w') simp
  with w'(1) show ?thesis by simp
qed

text \<open>
  C2: for a (non-blank) map outside maps.json and \<open>force_api\<close> false, the call sends a
  request exactly when the cache has no entry for the map or the entry's age exceeds the
  TTL strictly; an entry whose age is at most the TTL (the boundary included) is returned
  as it is, with the persisted document unchanged and no request.
\<close>

theorem cache_hit_within_ttl:
  assumes "map_filename \<noteq> []"
    and "map_of (common_custom ev) map_filename = None"
  shows "network_calls (trace (snd (find_custom_map_gamemode ev map_filename False w)))
           = network_calls (trace w)
             + (case map_of (custom_maps (db w)) map_filename of
                  None \<Rightarrow> 1
                | Some (gamemode_id, display_name, resolved_at) \<Rightarrow>
                    if time_now ev - resolved_at \<le> map_invalidation_hours ev * 3600
                    then 0 else 1)
       \<and> (\<forall>gamemode_id display_name resolved_at.
            map_of (custom_maps (db w)) map_filename
              = Some (gamemode_id, display_name, resolved_at)
            \<and> time_now ev - resolved_at \<le> map_invalidation_hours ev * 3600 \<longrightarrow>
              fst (find_custom_map_gamemode ev map_filename False w)
                = Inr (gamemode_id, display_name)
            \<and> db (snd (find_custom_map_gamemode ev map_filename False w)) = db w)"
  using assms
  by (auto simp add: find_custom_map_gamemode_custom Let_def api_lookup_calls
      split: option.splits)

text \<open>The witness is an entry whose age is the TTL to the second: 24 hours, 86400 seconds.\<close>

theorem cache_hit_within_ttl_witness:
  "fst (find_custom_map_gamemode
     \<lparr>time_now = 1600086400, common_custom = [], map_invalidation_hours = 24,
      teamwork_api = service ReadTimeout\<rparr>
     ''cp_catwalk_a5c'' False
     \<lparr>db = \<lparr>custom_maps = [(''cp_catwalk_a5c'', ''control-point'', ''Control Point'', 1600000000)],
             other_sections = ()\<rparr>, trace = []\<rparr>)
   = Inr (''control-point'', ''Control Point'')
   \<and> network_calls (trace (snd (find_custom_map_gamemode
     \<lparr>time_now = 1600086400, common_custom = [], map_invalidation_hours = 24,
      teamwork_api = service ReadTimeout\<rparr>
     ''cp_catwalk_a5c'' False
     \<lparr>db = \<lparr>custom_maps = [(''cp_catwalk_a5c'', ''control-point'', ''Control Point'', 1600000000)],
             other_sections = ()\<rparr>, trace = []\<rparr>))) = 0"
proof -
  let ?ev = "\<lparr>time_now = 1600086400, common_custom = [], map_invalidation_hours = 24,
      teamwork_api = service ReadTimeout\<rparr>"
  let ?w = "\<lparr>db = \<lparr>custom_maps =
      [(''cp_catwalk_a5c'', ''control-point'', ''Control Point'', 1600000000)],
      other_sections = ()\<rparr>, trace = []\<rparr>"
  have h1: "''cp_catwalk_a5c'' \<noteq> []" by simp
  have h2: "map_of (common_custom ?ev) ''cp_catwalk_a5c'' = None" by simp
  from cache_hit_within_ttl [OF h1 h2, of ?w]
  show ?thesis by simp
qed

subsection \<open>Answers of the remote service\<close>

text \<open>
  C3: when the service answers with an object whose \<open>all_gamemodes\<close> is a list of tags of
  which at least one is a key of the translation table, the result is the first such tag
  in the order of the answer, with its display name, and the cache gets the entry
  (tag, display name, now) under the map's name; the rest of the persisted document is
  unchanged and one request was sent. The map is not blank, not in maps.json, and the call
  reaches the request.
\<close>

theorem first_matching_tag:
  assumes "map_filename \<noteq> []"
    and "map_of (common_custom ev) map_filename = None"
    and "needs_lookup ev force_api (custom_maps (db w)) map_filename"
    and "teamwork_api ev map_filename = Json (JObj body)"
    and "map_of body ''all_gamemodes'' = Some (JArr (map JStr tags))"
    and "List.find (\<lambda>g. g \<in> set (map fst gamemodes)) tags = Some tag"
  shows "\<exists>fancy w'.
           map_of gamemodes tag = Some fancy
         \<and> find_custom_map_gamemode ev map_filename force_api w = (Inr (tag, fancy), w')
         \<and> custom_maps (db w')
             = AList.update map_filename (tag, fancy, time_now ev) (custom_maps (db w))
         \<and> map_of (custom_maps (db w')) map_filename = Some (tag, fancy, time_now ev)
         \<and> other_sections (db w') = other_sections (db w)
         \<and> network_calls (trace w') = network_calls (trace w) + 1"
proof -
  from assms(6) have "tag \<in> set (map fst gamemodes)"
    by (auto simp add: find_Some_iff)
  then obtain fancy where fancy: "map_of gamemodes tag = Some fancy"
    using known_gamemode_fancy by blast
  from assms(1-3) obtain w3 where w3:
    "find_custom_map_gamemode ev map_filename force_api w =
       api_lookup ev map_filename (custom_maps (db w)) w3"
    "db w3 = db w" "network_calls (trace w3) = network_calls (trace w)"
    using find_custom_map_gamemode_lookup by blast
  have get: "getitem (JObj body) ''all_gamemodes'' = Inr (JArr (map JStr tags))"
    using assms(5) by (simp add: getitem_def)
  let ?w4 = "emit (Log Debug) (emit (HttpGet map_filename) w3)"
  from parse_api_result_found [OF get assms(6) fancy, of ev map_filename "custom_maps (db w)" ?w4]
  obtain w' where w':
    "parse_api_result ev map_filename (custom_maps (db w)) (JObj body) ?w4
       = (Inr (tag, fancy), w')"
    "db w' = (db ?w4)\<lparr>custom_maps :=
               AList.update map_filename (tag, fancy, time_now ev) (custom_maps (db w))\<rparr>"
    "network_calls (trace w') = network_calls (trace ?w4)"
    by blast
  have res: "find_custom_map_gamemode ev map_filename force_api w = (Inr (tag, fancy), w')"
    using w3(1) w'(1) assms(4) by (simp add: api_lookup_json)
  have cm: "custom_maps (db w')
      = AList.update map_filename (tag, fancy, time_now ev) (custom_maps (db w))"
    using w'(2) by simp
  have look: "map_of (custom_maps (db w')) map_filename = Some (tag, fancy, time_now ev)"
    using cm by (simp add: update_conv')
  have oth: "other_sections (db w') = other_sections (db w)"
    using w'(2) w3(2) by simp
  have calls: "network_calls (trace w') = network_calls (trace w) + 1"
    using w'(3) w3(3) by simp
  from fancy res cm look oth calls show ?thesis by blast
qed

text \<open>The scenario of the spec: cp\_catwalk\_a5c, no entry, two tags of which the first is known.\<close>

theorem first_matching_tag_witness:
  "fst (find_custom_map_gamemode
     \<lparr>time_now = 1600000000, common_custom = [], map_invalidation_hours = 24,
      teamwork_api = service (Json (JObj [(''all_gamemodes'',
          JArr (map JStr [''control-point'', ''other-tag'']))]))\<rparr>
     ''cp_catwalk_a5c'' False
     \<lparr>db = \<lparr>custom_maps = [], other_sections = ()\<rparr>, trace = []\<rparr>)
   = Inr (''control-point'', ''Control Point'')
   \<and> custom_maps (db (snd (find_custom_map_gamemode
     \<lparr>time_now = 1600000000, common_custom = [], map_invalidation_hours = 24,
      teamwork_api = service (Json (JObj [(''all_gamemodes'',
          JArr (map JStr [''control-point'', ''other-tag'']))]))\<rparr>
     ''cp_catwalk_a5c'' False
     \<lparr>db = \<lparr>custom_maps = [], other_sections = ()\<rparr>, trace = []\<rparr>)))
   = [(''cp_catwalk_a5c'', ''control-point'', ''Control Point'', 1600000000)]"
proof -
  let ?body = "[(''all_gamemodes'', JArr (map JStr [''control-point'', ''other-tag'']))]"
  let ?ev = "\<lparr>time_now = 1600000000, common_custom = [], map_invalidation_hours = 24,
      teamwork_api = service (Json (JObj ?body))\<rparr>"
  let ?w = "\<lparr>db = \<lparr>custom_maps = [], other_sections = ()\<rparr>, trace = []\<rparr>"
  have h1: "''cp_catwalk_a5c'' \<noteq> []" by simp
  have h2: "map_of (common_custom ?ev) ''cp_catwalk_a5c'' = None" by simp
  have h3: "needs_lookup ?ev False (custom_maps (db ?w)) ''cp_catwalk_a5c''" by simp
  have h4: "teamwork_api ?ev ''cp_catwalk_a5c'' = Json (JObj ?body)"
    by (simp add: service_def)
  have h5: "map_of ?body ''all_gamemodes''
      = Some (JArr (map JStr [''control-point'', ''other-tag'']))" by simp
  have h6: "List.find (\<lambda>g. g \<in> set (map fst gamemodes)) [''control-point'', ''other-tag'']
      = Some ''control-point''"
    by (simp add: gamemodes_def)
  have fancy: "map_of gamemodes ''control-point'' = Some ''Control Point''"
    by (simp add: gamemodes_def)
  from first_matching_tag [OF h1 h2 h3 h4 h5 h6] fancy
  show ?thesis by auto
qed

text \<open>
  C4: when the service answers with an object that has no \<open>all_gamemodes\<close>, or whose
  \<open>all_gamemodes\<close> is a list of tags none of which is a key of the translation table, the
  call returns the sentinel pair and caches it with the current time, with one request;
  a repeated unforced call within the TTL of that entry returns the sentinel pair from the
  cache, writes nothing and sends no request.
\<close>

theorem unresolvable_one_request:
  assumes "map_filename \<noteq> []"
    and "map_of (common_custom ev) map_filename = None"
    and "needs_lookup ev force_api (custom_maps (db w)) map_filename"
    and "teamwork_api ev map_filename = Json (JObj body)"
    and "map_of body ''all_gamemodes'' = None
         \<or> (\<exists>tags. map_of body ''all_gamemodes'' = Some (JArr (map JStr tags))
               \<and> list_all (\<lambda>g. g \<notin> set (map fst gamemodes)) tags)"
    and "common_custom ev2 = common_custom ev"
    and "time_now ev2 - time_now ev \<le> map_invalidation_hours ev2 * 3600"
  shows "\<exists>w1 w2.
           find_custom_map_gamemode ev map_filename force_api w
             = (Inr (''unknown_map'', ''Unknown gamemode''), w1)
         \<and> map_of (custom_maps (db w1)) map_filename
             = Some (''unknown_map'', ''Unknown gamemode'', time_now ev)
         \<and> network_calls (trace w1) = network_calls (trace w) + 1
         \<and> find_custom_map_gamemode ev2 map_filename False w1
             = (Inr (''unknown_map'', ''Unknown gamemode''), w2)
         \<and> db w2 = db w1
         \<and> network_calls (trace w2) = network_calls (trace w1)"
proof -
  from assms(1-3) obtain w3 where w3:
    "find_custom_map_gamemode ev map_filename force_api w =
       api_lookup ev map_filename (custom_maps (db w)) w3"
    "db w3 = db w" "network_calls (trace w3) = network_calls (trace w)"
    using find_custom_map_gamemode_lookup by blast
  let ?w4 = "emit (Log Debug) (emit (HttpGet map_filename) w3)"
  from parse_api_result_unknown [OF assms(5), of ev map_filename "custom_maps (db w)" ?w4]
  obtain w1 where w1:
    "parse_api_result ev map_filename (custom_maps (db w)) (JObj body) ?w4
       = (Inr (''unknown_map'', ''Unknown gamemode''), w1)"
    "db w1 = (db ?w4)\<lparr>custom_maps :=
       AList.update map_filename (''unknown_map'', ''Unknown gamemode'', time_now ev)
         (custom_maps (db w))\<rparr>"
    "network_calls (trace w1) = network_calls (trace ?w4)"
    by blast
  have first: "find_custom_map_gamemode ev map_filename force_api w
      = (Inr (''unknown_map'', ''Unknown gamemode''), w1)"
    using w3(1) w1(1) assms(4) by (simp add: api_lookup_json)
  have entry: "map_of (custom_maps (db w1)) map_filename
      = Some (''unknown_map'', ''Unknown gamemode'', time_now ev)"
    using w1(2) by (simp add: update_conv')
  have calls: "network_calls (trace w1) = network_calls (trace w) + 1"
    using w1(3) w3(3) by simp
  have static2: "map_of (common_custom ev2) map_filename = None"
    using assms(2,6) by simp
  let ?w2 = "emit (Log Debug) (emit (Log Debug) (emit DbRead (emit (Log Debug) w1)))"
  have second: "find_custom_map_gamemode ev2 map_filename False w1
      = (Inr (''unknown_map'', ''Unknown gamemode''), ?w2)"
    using entry assms(7)
    by (simp add: find_custom_map_gamemode_custom [OF assms(1) static2] Let_def)
  have "db ?w2 = db w1" "network_calls (trace ?w2) = network_calls (trace w1)"
    by simp_all
  with first entry calls second show ?thesis by blast
qed

text \<open>The scenario of the spec: ytsb8eitybw, tags unknown to the table, then the call again.\<close>

theorem unresolvable_one_request_witness:
  "network_calls (trace (snd (find_custom_map_gamemode
       \<lparr>time_now = 1600000000, common_custom = [], map_invalidation_hours = 24,
        teamwork_api = service (Json (JObj [(''all_gamemodes'', JArr (map JStr [''other-tag'']))]))\<rparr>
       ''ytsb8eitybw'' False
       (snd (find_custom_map_gamemode
         \<lparr>time_now = 1600000000, common_custom = [], map_invalidation_hours = 24,
          teamwork_api = service (Json (JObj [(''all_gamemodes'', JArr (map JStr [''other-tag'']))]))\<rparr>
         ''ytsb8eitybw'' False
         \<lparr>db = \<lparr>custom_maps = [], other_sections = ()\<rparr>, trace = []\<rparr>)))))
   = 1"
proof -
  let ?body = "[(''all_gamemodes'', JArr (map JStr [''other-tag'']))]"
  let ?ev = "\<lparr>time_now = 1600000000, common_custom = [], map_invalidation_hours = 24,
      teamwork_api = service (Json (JObj ?body))\<rparr>"
  let ?w = "\<lparr>db = \<lparr>custom_maps = [], other_sections = ()\<rparr>, trace = []\<rparr>"
  have h1: "''ytsb8eitybw'' \<noteq> []" by simp
  have h2: "map_of (common_custom ?ev) ''ytsb8eitybw'' = None" by simp
  have h3: "needs_lookup ?ev False (custom_maps (db ?w)) ''ytsb8eitybw''" by simp
  have h4: "teamwork_api ?ev ''ytsb8eitybw'' = Json (JObj ?body)"
    by (simp add: service_def)
  have a: "list_all (\<lambda>g. g \<notin> set (map fst gamemodes)) [''other-tag'']"
    by (simp add: gamemodes_def)
  have b: "map_of ?body ''all_gamemodes'' = Some (JArr (map JStr [''other-tag'']))"
    by simp
  from a b have h5: "map_of ?body ''all_gamemodes'' = None
      \<or> (\<exists>tags. map_of ?body ''all_gamemodes'' = Some (JArr (map JStr tags))
            \<and> list_all (\<lambda>g. g \<notin> set (map fst gamemodes)) tags)"
    by blast
  have h6: "common_custom ?ev = common_custom ?ev" by simp
  have h7: "time_now ?ev - time_now ?ev \<le> map_invalidation_hours ?ev * 3600" by simp
  from unresolvable_one_request [OF h1 h2 h3 h4 h5 h6 h7]
  show ?thesis by auto
qed

subsection \<open>The cache accessor\<close>

text \<open>
  C10: called with an empty dict, \<open>access_custom_maps_cache\<close> reads: it returns the
  persisted cache and leaves the persisted document as it was. Whatever its argument, a
  persisted cache that is not empty is not empty afterwards: the write branch needs a
  truthy, hence non-empty, dict.
\<close>

theorem empty_dict_reads:
  "access_custom_maps_cache (Some []) w
     = (Some (custom_maps (db w)), w\<lparr>trace := trace w @ [DbRead]\<rparr>)
   \<and> db (snd (access_custom_maps_cache (Some []) w)) = db w
   \<and> (custom_maps (db w) \<noteq> []
        \<longrightarrow> custom_maps (db (snd (access_custom_maps_cache dict_input w))) \<noteq> [])"
proof (intro conjI)
  show "access_custom_maps_cache (Some []) w =
          (Some (custom_maps (db w)), w\<lparr>trace := trace w @ [DbRead]\<rparr>)"
    by (simp add: access_cache_empty emit_def)
next
  show "db (snd (access_custom_maps_cache (Some []) w)) = db w"
    by (simp add: access_cache_empty)
next
  show "custom_maps (db w) \<noteq> []
          \<longrightarrow> custom_maps (db (snd (access_custom_maps_cache dict_input w))) \<noteq> []"
  proof (cases dict_input)
    case None
    then show ?thesis by (simp add: access_cache_read)
  next
    case (Some c)
    then show ?thesis
      by (cases c) (simp_all add: access_cache_empty access_cache_write)
  qed
qed

theorem empty_dict_reads_witness:
  "custom_maps (db (snd (access_custom_maps_cache (Some [])
      \<lparr>db = \<lparr>custom_maps = [(''cp_catwalk_a5c'', ''control-point'', ''Control Point'', 1600000000)],
              other_sections = ()\<rparr>, trace = []\<rparr>)))
   = [(''cp_catwalk_a5c'', ''control-point'', ''Control Point'', 1600000000)]"
  using empty_dict_reads [of
      "\<lparr>db = \<lparr>custom_maps = [(''cp_catwalk_a5c'', ''control-point'', ''Control Point'', 1600000000)],
              other_sections = ()\<rparr>, trace = []\<rparr>" "Some []"]
  by simp

section \<open>Properties of main.py\<close>

subsection \<open>Effects of the building blocks\<close>

lemma app_effect [simp]: "app (effect e p) = app p"
  by (simp add: effect_def)

lemma events_effect [simp]: "events (effect e p) = events p @ [e]"
  by (simp add: effect_def)

lemma app_modify [simp]: "app (modify f p) = f (app p)"
  by (simp add: modify_def)

lemma events_modify [simp]: "events (modify f p) = events p"
  by (simp add: modify_def)

lemma steps_Nil [simp]: "steps [] p = p"
  by (simp add: steps_def)

lemma steps_Cons [simp]: "steps (f # fs) p = steps fs (f p)"
  by (simp add: steps_def)

lemma class_config_runs_simps [simp]:
  "class_config_runs [] = 0"
  "class_config_runs (e # t)
     = (case e of ClassConfigFiles _ \<Rightarrow> 1 | _ \<Rightarrow> 0) + class_config_runs t"
  "class_config_runs (t @ u) = class_config_runs t + class_config_runs u"
  by (simp_all add: class_config_runs_def split: event.splits)

lemma disconnects_simps [simp]:
  "disconnects [] = 0"
  "disconnects (e # t) = (if e = RpcDisconnect then 1 else 0) + disconnects t"
  "disconnects (t @ u) = disconnects t + disconnects u"
  by (simp_all add: disconnects_def)

lemma keepsD:
  assumes "keeps f"
  shows "client_connected (f s) = client_connected s"
    and "rpc_client (f s) = rpc_client s"
    and "test_state (f s) = test_state s"
    and "slow_sleep_time (f s) = slow_sleep_time s"
    and "has_checked_class_configs (f s) = has_checked_class_configs s"
  using assms by (simp_all add: keeps_def)

lemma keeps_id: "keeps (\<lambda>s. s)"
  by (simp add: keeps_def)

text \<open>Repeated logging changes the trace by log lines only.\<close>

lemma steps_logs:
  "app (steps (map (\<lambda>kv. effect (Log Debug)) xs) p) = app p
   \<and> class_config_runs (events (steps (map (\<lambda>kv. effect (Log Debug)) xs) p))
       = class_config_runs (events p)
   \<and> disconnects (events (steps (map (\<lambda>kv. effect (Log Debug)) xs) p))
       = disconnects (events p)"
  by (induction xs arbitrary: p) simp_all

lemma run_hook_modify:
  assumes "well_behaved c"
    and "hook = before_loop \<or> hook = loop_middle \<or> hook = after_loop"
  shows "\<exists>f. keeps f \<and> run_hook hook c p = modify f p"
proof (cases "custom_functions c")
  case None
  have "run_hook hook c p = modify (\<lambda>s. s) p"
    using None by (simp add: run_hook_def modify_def)
  with keeps_id show ?thesis by blast
next
  case (Some cf)
  then have "keeps (hook cf)"
    using assms by (auto simp add: well_behaved_def)
  moreover have "run_hook hook c p = modify (hook cf) p"
    using Some by (simp add: run_hook_def)
  ultimately show ?thesis by blast
qed

text \<open>What a block leaves alone: the fields main.py owns and the two counters.\<close>

lemma run_hook_frame:
  assumes "well_behaved c"
    and "hook = before_loop \<or> hook = loop_middle \<or> hook = after_loop"
  shows "client_connected (app (run_hook hook c p)) = client_connected (app p)"
    and "rpc_client (app (run_hook hook c p)) = rpc_client (app p)"
    and "test_state (app (run_hook hook c p)) = test_state (app p)"
    and "slow_sleep_time (app (run_hook hook c p)) = slow_sleep_time (app p)"
    and "has_checked_class_configs (app (run_hook hook c p))
           = has_checked_class_configs (app p)"
    and "events (run_hook hook c p) = events p"
  using run_hook_modify [OF assms, of p] by (auto simp add: keepsD)

lemma steam_config_file_keeps:
  assumes "well_behaved c"
  shows "client_connected (snd (steam_config_file c s steam_path)) = client_connected s"
    and "rpc_client (snd (steam_config_file c s steam_path)) = rpc_client s"
    and "test_state (snd (steam_config_file c s steam_path)) = test_state s"
    and "slow_sleep_time (snd (steam_config_file c s steam_path)) = slow_sleep_time s"
    and "has_checked_class_configs (snd (steam_config_file c s steam_path))
           = has_checked_class_configs s"
proof -
  have "keeps (\<lambda>s. snd (steam_config_file c s steam_path))"
    using assms by (simp add: well_behaved_def)
  from keepsD [OF this, of s] show
    "client_connected (snd (steam_config_file c s steam_path)) = client_connected s"
    "rpc_client (snd (steam_config_file c s steam_path)) = rpc_client s"
    "test_state (snd (steam_config_file c s steam_path)) = test_state s"
    "slow_sleep_time (snd (steam_config_file c s steam_path)) = slow_sleep_time s"
    "has_checked_class_configs (snd (steam_config_file c s steam_path))
           = has_checked_class_configs s"
    by simp_all
qed

lemma steam_configs_frame:
  assumes "well_behaved c"
  shows "client_connected (app (steam_configs c env p)) = client_connected (app p)"
    and "rpc_client (app (steam_configs c env p)) = rpc_client (app p)"
    and "has_checked_class_configs (app (steam_configs c env p))
           = has_checked_class_configs (app p)"
    and "class_config_runs (events (steam_configs c env p)) = class_config_runs (events p)"
    and "disconnects (events (steam_configs c env p)) = disconnects (events p)"
  by (simp_all add: steam_configs_def Let_def steps_logs split_beta
      steam_config_file_keeps [OF assms] split: option.split)

lemma init_operations_frame:
  "client_connected (app (init_operations env p)) = client_connected (app p)"
  "rpc_client (app (init_operations env p)) = rpc_client (app p)"
  "test_state (app (init_operations env p)) = test_state (app p)"
  "slow_sleep_time (app (init_operations env p)) = slow_sleep_time (app p)"
  "has_checked_class_configs (app (init_operations env p)) = has_checked_class_configs (app p)"
  "class_config_runs (events (init_operations env p)) = class_config_runs (events p)"
  "disconnects (events (init_operations env p)) = disconnects (events p)"
  by (simp_all add: init_operations_def)

lemma after_branch_frame:
  assumes "well_behaved c"
  shows "client_connected (app (after_branch c env p)) = client_connected (app p)"
    and "rpc_client (app (after_branch c env p)) = rpc_client (app p)"
    and "test_state (app (after_branch c env p)) = test_state (app p)"
    and "slow_sleep_time (app (after_branch c env p)) = slow_sleep_time (app p)"
    and "has_checked_class_configs (app (after_branch c env p))
           = has_checked_class_configs (app p)"
    and "class_config_runs (events (after_branch c env p)) = class_config_runs (events p)"
    and "disconnects (events (after_branch c env p)) = disconnects (events p)"
  by (simp_all add: after_branch_def Let_def init_operations_frame
      run_hook_frame [OF assms])

text \<open>Lines 181 to 213, the part of the tick before the branch.\<close>

lemma before_branch_frame:
  assumes "well_behaved c"
  shows "client_connected (app (before_branch c env p)) = client_connected (app p)"
    and "rpc_client (app (before_branch c env p)) = rpc_client (app p)"
    and "has_checked_class_configs (app (before_branch c env p))
           = has_checked_class_configs (app p)"
    and "class_config_runs (events (before_branch c env p)) = class_config_runs (events p)"
    and "disconnects (events (before_branch c env p)) = disconnects (events p)"
  by (simp_all add: before_branch_def steam_configs_frame [OF assms]
      run_hook_frame [OF assms])

lemma necessary_program_not_running_eq:
  assumes "client_connected (app p)
           \<longrightarrow> rpc_client (app p) \<noteq> None \<and> disconnect_raises env = None"
  shows "\<exists>p'. necessary_program_not_running env program_name name_short_arg p = Inr p'
      \<and> test_state (app p')
          = ''no '' @ lower (if name_short_arg = [] then program_name else name_short_arg)
      \<and> slow_sleep_time (app p')
      \<and> \<not> client_connected (app p')
      \<and> rpc_client (app p') = rpc_client (app p)
      \<and> has_checked_class_configs (app p') = has_checked_class_configs (app p)
      \<and> class_config_runs (events p') = class_config_runs (events p)
      \<and> disconnects (events p')
          = disconnects (events p) + (if client_connected (app p) then 1 else 0)"
  using assms
  by (cases "rpc_client (app p)")
     (auto simp add: necessary_program_not_running_def Let_def)

text \<open>What \<open>disconnect()\<close> raises leaves the method.\<close>

lemma necessary_program_not_running_raises:
  assumes "client_connected (app p)" and "rpc_client (app p) = Some client"
    and "disconnect_raises env = Some msg"
  shows "necessary_program_not_running env program_name name_short_arg p = Inl (Raised msg)"
  using assms by (simp add: necessary_program_not_running_def Let_def)

lemma lower_names:
  "lower ''TF2'' = ''tf2''" "lower ''Discord'' = ''discord''" "lower ''Steam'' = ''steam''"
  by (simp_all add: lower_def lower_char_def)

lemma interpret_console_log_keeps:
  assumes "well_behaved c"
  shows "has_checked_class_configs (snd (interpret_console_log c s file names started))
           = has_checked_class_configs s"
proof -
  have "keeps (\<lambda>s. snd (interpret_console_log c s file names started))"
    using assms by (simp add: well_behaved_def)
  from keepsD(5) [OF this, of s] show ?thesis by simp
qed

lemma gui_menus_frame:
  "has_checked_class_configs (app (gui_menus p)) = has_checked_class_configs (app p)"
  "class_config_runs (events (gui_menus p)) = class_config_runs (events p)"
  by (simp_all add: gui_menus_def Let_def)

lemma gui_in_game_frame:
  "has_checked_class_configs (app (gui_in_game c env p)) = has_checked_class_configs (app p)"
  "class_config_runs (events (gui_in_game c env p)) = class_config_runs (events p)"
  by (simp_all add: gui_in_game_def Let_def)

lemma send_rpc_activity_frame:
  assumes "send_rpc_activity env p = Inr p'"
  shows "has_checked_class_configs (app p') = has_checked_class_configs (app p)"
    and "class_config_runs (events p') = class_config_runs (events p)"
  using assms
  by (auto simp add: send_rpc_activity_def try_send_def Let_def
      split: option.splits if_splits sum.splits exn.splits)

lemma publish_frame:
  assumes "well_behaved c" and "publish c env p = Inr p'"
  shows "has_checked_class_configs (app p') = has_checked_class_configs (app p)"
    and "class_config_runs (events p') = class_config_runs (events p)"
proof -
  note h = run_hook_frame [OF assms(1), of loop_middle]
  show "has_checked_class_configs (app p') = has_checked_class_configs (app p)"
  proof (cases "update_rpc (game_state (app p))")
    case True
    with assms(2) send_rpc_activity_frame(1) show ?thesis
      by (fastforce simp add: publish_def h)
  next
    case False
    with assms(2) show ?thesis by (auto simp add: publish_def h)
  qed
  show "class_config_runs (events p') = class_config_runs (events p)"
  proof (cases "update_rpc (game_state (app p))")
    case True
    with assms(2) send_rpc_activity_frame(2) show ?thesis
      by (fastforce simp add: publish_def h)
  next
    case False
    with assms(2) show ?thesis by (auto simp add: publish_def h)
  qed
qed

lemma check_class_configs_eq:
  "has_checked_class_configs (app (check_class_configs env p))"
  "class_config_runs (events (check_class_configs env p))
     = class_config_runs (events p) + (if has_checked_class_configs (app p) then 0 else 1)"
  by (simp_all add: check_class_configs_def Let_def)

lemma read_console_log_frame:
  assumes "well_behaved c"
  shows "has_checked_class_configs (app (read_console_log c env tf2_path p))
           = has_checked_class_configs (app p)"
    and "class_config_runs (events (read_console_log c env tf2_path p))
           = class_config_runs (events p)"
  by (simp_all add: read_console_log_def Let_def split_beta
      interpret_console_log_keeps [OF assms] split: option.split)

lemma all_running_class_configs:
  assumes "well_behaved c" and "all_running c env p = Inr p'"
  shows "has_checked_class_configs (app p')"
    and "class_config_runs (events p')
           = class_config_runs (events p)
             + (if has_checked_class_configs (app p) then 0 else 1)"
proof -
  define p1 where "p1 = steps [check_class_configs env,
      modify (\<lambda>s. s\<lparr>game_state :=
         (game_state s)\<lparr>game_start_time := p_time (TF2 (process_scan env))\<rparr>\<rparr>),
      effect (Gui ''set_clean_console_log_button_state'' [''True''])] p"
  have p1: "has_checked_class_configs (app p1)"
    "class_config_runs (events p1)
       = class_config_runs (events p) + (if has_checked_class_configs (app p) then 0 else 1)"
    by (simp_all add: p1_def check_class_configs_eq)
  from assms(2) obtain tf2_path started where
    path: "p_path (TF2 (process_scan env)) = Some tf2_path"
    and started: "p_time (TF2 (process_scan env)) = Some started"
    by (auto simp add: all_running_def Let_def split: option.splits)
  define p2 where "p2 = read_console_log c env tf2_path p1"
  define p2g where "p2g = (if in_menus (game_state (app p2)) then gui_menus p2
                           else gui_in_game c env p2)"
  have p2: "has_checked_class_configs (app p2g)"
    "class_config_runs (events p2g) = class_config_runs (events p1)"
    using p1(1)
    by (simp_all add: p2g_def p2_def gui_menus_frame gui_in_game_frame
        read_console_log_frame [OF assms(1)])
  have eq: "all_running c env p =
      (case publish c env p2g of
         Inl e \<Rightarrow> Inl e
       | Inr p3 \<Rightarrow> Inr (steps [effect (Gui ''master.title'' []), effect (Log Debug)] p3))"
    using path started by (simp add: all_running_def Let_def p1_def p2_def p2g_def)
  from assms(2) obtain p3 where
    p3: "publish c env p2g = Inr p3"
    and p': "p' = steps [effect (Gui ''master.title'' []), effect (Log Debug)] p3"
    unfolding eq by (cases "publish c env p2g") auto
  from publish_frame [OF assms(1) p3] p2 p1(2)
  have "has_checked_class_configs (app p3)"
    "class_config_runs (events p3)
       = class_config_runs (events p) + (if has_checked_class_configs (app p) then 0 else 1)"
    by simp_all
  with p' show "has_checked_class_configs (app p')"
    "class_config_runs (events p')
       = class_config_runs (events p) + (if has_checked_class_configs (app p) then 0 else 1)"
    by simp_all
qed


lemma necessary_program_not_running_frame:
  assumes "necessary_program_not_running env program_name name_short_arg p = Inr p'"
  shows "has_checked_class_configs (app p') = has_checked_class_configs (app p)"
    and "class_config_runs (events p') = class_config_runs (events p)"
    and "\<not> client_connected (app p')"
  using assms
  by (auto simp add: necessary_program_not_running_def Let_def
      split: if_splits option.splits)

lemma branch_class_configs:
  assumes "well_behaved c" and "branch c env p = Inr p'"
  shows "has_checked_class_configs (app p')
           = (has_checked_class_configs (app p)
              \<or> (p_running (TF2 (process_scan env)) \<and> p_running (Discord (process_scan env))
                  \<and> p_running (Steam (process_scan env))))"
    and "class_config_runs (events p')
           = class_config_runs (events p)
             + (if \<not> has_checked_class_configs (app p)
                   \<and> p_running (TF2 (process_scan env)) \<and> p_running (Discord (process_scan env))
                   \<and> p_running (Steam (process_scan env)) then 1 else 0)"
proof -
  show "has_checked_class_configs (app p')
           = (has_checked_class_configs (app p)
              \<or> (p_running (TF2 (process_scan env)) \<and> p_running (Discord (process_scan env))
                  \<and> p_running (Steam (process_scan env))))"
    using assms(2) all_running_class_configs(1) [OF assms(1)]
      necessary_program_not_running_frame(1)
    by (fastforce simp add: branch_def Let_def split: if_splits sum.splits)
  show "class_config_runs (events p')
           = class_config_runs (events p)
             + (if \<not> has_checked_class_configs (app p)
                   \<and> p_running (TF2 (process_scan env)) \<and> p_running (Discord (process_scan env))
                   \<and> p_running (Steam (process_scan env)) then 1 else 0)"
    using assms(2) all_running_class_configs(2) [OF assms(1)]
      necessary_program_not_running_frame(2)
    by (fastforce simp add: branch_def Let_def split: if_splits sum.splits)
qed

lemma loop_body_class_configs:
  assumes "well_behaved c" and "loop_body c env p = Inr p'"
  shows "has_checked_class_configs (app p')
           = (has_checked_class_configs (app p)
              \<or> (p_running (TF2 (process_scan env)) \<and> p_running (Discord (process_scan env))
                  \<and> p_running (Steam (process_scan env))))"
    and "class_config_runs (events p')
           = class_config_runs (events p)
             + (if \<not> has_checked_class_configs (app p)
                   \<and> p_running (TF2 (process_scan env)) \<and> p_running (Discord (process_scan env))
                   \<and> p_running (Steam (process_scan env)) then 1 else 0)"
proof -
  from assms(2) obtain p2 where
    p2: "branch c env (before_branch c env p) = Inr p2" and p': "p' = after_branch c env p2"
    by (auto simp add: loop_body_def split: if_splits sum.splits)
  note pre = before_branch_frame [OF assms(1), of env p]
  note mid = branch_class_configs [OF assms(1) p2]
  note post = after_branch_frame [OF assms(1), of env p2]
  show "has_checked_class_configs (app p')
           = (has_checked_class_configs (app p)
              \<or> (p_running (TF2 (process_scan env)) \<and> p_running (Discord (process_scan env))
                  \<and> p_running (Steam (process_scan env))))"
    using p' pre(3) mid(1) post(5) by simp
  show "class_config_runs (events p')
           = class_config_runs (events p)
             + (if \<not> has_checked_class_configs (app p)
                   \<and> p_running (TF2 (process_scan env)) \<and> p_running (Discord (process_scan env))
                   \<and> p_running (Steam (process_scan env)) then 1 else 0)"
    using p' pre(3,4) mid(2) post(6) by simp
qed

lemma branch_missing:
  assumes "\<not> (p_running (TF2 (process_scan env)) \<and> p_running (Discord (process_scan env))
              \<and> p_running (Steam (process_scan env)))"
    and "client_connected (app p)
         \<longrightarrow> rpc_client (app p) \<noteq> None \<and> disconnect_raises env = None"
  shows "\<exists>p'. branch c env p = Inr p'
      \<and> test_state (app p')
          = (if \<not> p_running (TF2 (process_scan env)) then ''no tf2''
             else if \<not> p_running (Discord (process_scan env)) then ''no discord''
             else ''no steam'')
      \<and> slow_sleep_time (app p')
      \<and> \<not> client_connected (app p')
      \<and> has_checked_class_configs (app p') = has_checked_class_configs (app p)
      \<and> class_config_runs (events p') = class_config_runs (events p)
      \<and> disconnects (events p')
          = disconnects (events p) + (if client_connected (app p) then 1 else 0)"
proof -
  consider (tf2) "\<not> p_running (TF2 (process_scan env))"
    | (discord) "p_running (TF2 (process_scan env))" "\<not> p_running (Discord (process_scan env))"
    | (steam) "p_running (TF2 (process_scan env))" "p_running (Discord (process_scan env))"
        "\<not> p_running (Steam (process_scan env))"
    using assms(1) by blast
  then show ?thesis
  proof cases
    case tf2
    from necessary_program_not_running_eq [OF assms(2),
        where program_name = "''Team Fortress 2''" and name_short_arg = "''TF2''"]
    obtain q where q: "necessary_program_not_running env ''Team Fortress 2'' ''TF2'' p = Inr q"
      "test_state (app q) = ''no '' @ lower ''TF2''" "slow_sleep_time (app q)"
      "\<not> client_connected (app q)"
      "has_checked_class_configs (app q) = has_checked_class_configs (app p)"
      "class_config_runs (events q) = class_config_runs (events p)"
      "disconnects (events q)
         = disconnects (events p) + (if client_connected (app p) then 1 else 0)"
      by auto
    with tf2 show ?thesis
      by (simp add: branch_def Let_def lower_names)
  next
    case discord
    from necessary_program_not_running_eq [OF assms(2),
        where program_name = "''Discord''" and name_short_arg = "''''"]
    obtain q where q: "necessary_program_not_running env ''Discord'' '''' p = Inr q"
      "test_state (app q) = ''no '' @ lower ''Discord''" "slow_sleep_time (app q)"
      "\<not> client_connected (app q)"
      "has_checked_class_configs (app q) = has_checked_class_configs (app p)"
      "class_config_runs (events q) = class_config_runs (events p)"
      "disconnects (events q)
         = disconnects (events p) + (if client_connected (app p) then 1 else 0)"
      by auto
    with discord show ?thesis
      by (simp add: branch_def Let_def lower_names)
  next
    case steam
    from necessary_program_not_running_eq [OF assms(2),
        where program_name = "''Steam''" and name_short_arg = "''''"]
    obtain q where q: "necessary_program_not_running env ''Steam'' '''' p = Inr q"
      "test_state (app q) = ''no '' @ lower ''Steam''" "slow_sleep_time (app q)"
      "\<not> client_connected (app q)"
      "has_checked_class_configs (app q) = has_checked_class_configs (app p)"
      "class_config_runs (events q) = class_config_runs (events p)"
      "disconnects (events q)
         = disconnects (events p) + (if client_connected (app p) then 1 else 0)"
      by auto
    with steam show ?thesis
      by (simp add: branch_def Let_def lower_names)
  qed
qed

lemma branch_missing_returns:
  assumes "\<not> all_three_running env" and "branch c env p = Inr p'"
  shows "\<not> client_connected (app p')"
  using assms necessary_program_not_running_frame(3)
  by (fastforce simp add: branch_def Let_def split: if_splits sum.splits)

lemma branch_missing_raises:
  assumes "\<not> all_three_running env"
    and "client_connected (app p)" and "rpc_client (app p) = Some client"
    and "disconnect_raises env = Some msg"
  shows "branch c env p = Inl (Raised msg)"
  using assms
  by (auto simp add: branch_def Let_def necessary_program_not_running_raises)

lemma well_behaved_idle: "well_behaved idle"
  by (simp add: well_behaved_def idle_def keeps_def)


lemma interpret_console_log_keeps_client:
  assumes "well_behaved c"
  shows "client_connected (snd (interpret_console_log c s file names started))
           = client_connected s"
    and "rpc_client (snd (interpret_console_log c s file names started)) = rpc_client s"
proof -
  have "keeps (\<lambda>s. snd (interpret_console_log c s file names started))"
    using assms by (simp add: well_behaved_def)
  from keepsD(1,2) [OF this, of s] show
    "client_connected (snd (interpret_console_log c s file names started))
           = client_connected s"
    "rpc_client (snd (interpret_console_log c s file names started)) = rpc_client s"
    by simp_all
qed

lemma send_rpc_activity_linked:
  assumes "send_rpc_activity env p = Inr p'"
    and "client_connected (app p) \<longrightarrow> rpc_client (app p) \<noteq> None"
  shows "client_connected (app p') \<longrightarrow> rpc_client (app p') \<noteq> None"
  using assms
  by (auto simp add: send_rpc_activity_def try_send_def Let_def
      split: option.splits if_splits sum.splits exn.splits)

lemma publish_linked:
  assumes "well_behaved c" and "publish c env p = Inr p'"
    and "client_connected (app p) \<longrightarrow> rpc_client (app p) \<noteq> None"
  shows "client_connected (app p') \<longrightarrow> rpc_client (app p') \<noteq> None"
proof (cases "update_rpc (game_state (app p))")
  case True
  let ?q = "steps [modify (\<lambda>s. s\<lparr>activity := get_activity c (game_state s)\<rparr>),
                   run_hook loop_middle c] p"
  have "client_connected (app ?q) \<longrightarrow> rpc_client (app ?q) \<noteq> None"
    using assms(3) by (simp add: run_hook_frame [OF assms(1)])
  moreover have "send_rpc_activity env ?q = Inr p'"
    using assms(2) True by (simp add: publish_def)
  ultimately show ?thesis
    using send_rpc_activity_linked by blast
next
  case False
  with assms(2,3) show ?thesis
    by (auto simp add: publish_def run_hook_frame [OF assms(1)])
qed

lemma all_running_linked:
  assumes "well_behaved c" and "all_running c env p = Inr p'"
    and "client_connected (app p) \<longrightarrow> rpc_client (app p) \<noteq> None"
  shows "client_connected (app p') \<longrightarrow> rpc_client (app p') \<noteq> None"
proof -
  define p1 where "p1 = steps [check_class_configs env,
      modify (\<lambda>s. s\<lparr>game_state :=
         (game_state s)\<lparr>game_start_time := p_time (TF2 (process_scan env))\<rparr>\<rparr>),
      effect (Gui ''set_clean_console_log_button_state'' [''True''])] p"
  from assms(2) obtain tf2_path started where
    path: "p_path (TF2 (process_scan env)) = Some tf2_path"
    and started: "p_time (TF2 (process_scan env)) = Some started"
    by (auto simp add: all_running_def Let_def split: option.splits)
  define p2 where "p2 = read_console_log c env tf2_path p1"
  define p2g where "p2g = (if in_menus (game_state (app p2)) then gui_menus p2
                           else gui_in_game c env p2)"
  have same: "client_connected (app p2g) = client_connected (app p)"
    "rpc_client (app p2g) = rpc_client (app p)"
    by (simp_all add: p2g_def p2_def p1_def gui_menus_def gui_in_game_def
        read_console_log_def check_class_configs_def Let_def split_beta
        interpret_console_log_keeps_client [OF assms(1)] split: option.split)
  have eq: "all_running c env p =
      (case publish c env p2g of
         Inl e \<Rightarrow> Inl e
       | Inr p3 \<Rightarrow> Inr (steps [effect (Gui ''master.title'' []), effect (Log Debug)] p3))"
    using path started by (simp add: all_running_def Let_def p1_def p2_def p2g_def)
  from assms(2) obtain p3 where
    p3: "publish c env p2g = Inr p3"
    and p': "p' = steps [effect (Gui ''master.title'' []), effect (Log Debug)] p3"
    unfolding eq by (cases "publish c env p2g") auto
  have "client_connected (app p2g) \<longrightarrow> rpc_client (app p2g) \<noteq> None"
    using assms(3) same by simp
  from publish_linked [OF assms(1) p3 this] p' show ?thesis by simp
qed

text \<open>
  A set connected flag comes with a client object: this holds when the object is built and
  every tick keeps it.
\<close>

lemma loop_body_linked:
  assumes "well_behaved c" and "loop_body c env p = Inr p'"
    and "client_connected (app p) \<longrightarrow> rpc_client (app p) \<noteq> None"
  shows "client_connected (app p') \<longrightarrow> rpc_client (app p') \<noteq> None"
proof -
  from assms(2) obtain p2 where
    p2: "branch c env (before_branch c env p) = Inr p2" and p': "p' = after_branch c env p2"
    by (auto simp add: loop_body_def split: if_splits sum.splits)
  note pre = before_branch_frame [OF assms(1), of env p]
  note post = after_branch_frame [OF assms(1), of env p2]
  have inv: "client_connected (app (before_branch c env p))
      \<longrightarrow> rpc_client (app (before_branch c env p)) \<noteq> None"
    using assms(3) pre(1,2) by simp
  have "client_connected (app p2) \<longrightarrow> rpc_client (app p2) \<noteq> None"
  proof (cases "all_three_running env")
    case True
    with p2 have "all_running c env (before_branch c env p) = Inr p2"
      by (simp add: branch_def Let_def)
    from all_running_linked [OF assms(1) this inv] show ?thesis .
  next
    case False
    from branch_missing_returns [OF False p2] show ?thesis by simp
  qed
  with p' post(1,2) show ?thesis by simp
qed

lemma init_linked:
  "client_connected (init gs set_process_priority)
     \<longrightarrow> rpc_client (init gs set_process_priority) \<noteq> None"
  by (simp add: init_def)

lemmas tick_defs = loop_body_def before_branch_def steam_configs_def branch_def
  all_running_def check_class_configs_def read_console_log_def gui_menus_def publish_def
  send_rpc_activity_def try_send_def necessary_program_not_running_def after_branch_def
  init_operations_def run_hook_def idle_def surroundings_def process_def menu_state_def
  init_def lower_def lower_char_def Let_def

subsection \<open>A tick with a program missing\<close>

text \<open>
  When \<open>disconnect()\<close> returns, a tick in which the game, Discord or Steam is not
  running ends in the state named after the first missing one in the order TF2, Discord,
  Steam (\<open>no tf2\<close> when all three are missing), with the connected flag false, the
  presence client disconnected exactly when the flag was set before, and the slow sleep
  rate set, so that the sleep after the tick lasts \<open>wait_time_slow\<close>. The GUI is alive,
  the collaborators are well-behaved, and a set flag comes with a client object.
\<close>

lemma missing_program_tick:
  assumes "gui_alive env"
    and "well_behaved c"
    and "\<not> (p_running (TF2 (process_scan env)) \<and> p_running (Discord (process_scan env))
              \<and> p_running (Steam (process_scan env)))"
    and "client_connected (app p)
         \<longrightarrow> rpc_client (app p) \<noteq> None \<and> disconnect_raises env = None"
  shows "\<exists>p'. loop_body c env p = Inr p'
      \<and> test_state (app p')
          = (if \<not> p_running (TF2 (process_scan env)) then ''no tf2''
             else if \<not> p_running (Discord (process_scan env)) then ''no discord''
             else ''no steam'')
      \<and> \<not> client_connected (app p')
      \<and> disconnects (events p')
          = disconnects (events p) + (if client_connected (app p) then 1 else 0)
      \<and> slow_sleep_time (app p')
      \<and> sleep_time wait_time_slow wait_time (app p') = wait_time_slow"
proof -
  let ?p1 = "before_branch c env p"
  note pre = before_branch_frame [OF assms(2), of env p]
  have inv: "client_connected (app ?p1)
      \<longrightarrow> rpc_client (app ?p1) \<noteq> None \<and> disconnect_raises env = None"
    using assms(4) pre(1,2) by simp
  from branch_missing [OF assms(3) inv, of c]
  obtain p2 where p2: "branch c env ?p1 = Inr p2"
    "test_state (app p2)
       = (if \<not> p_running (TF2 (process_scan env)) then ''no tf2''
          else if \<not> p_running (Discord (process_scan env)) then ''no discord''
          else ''no steam'')"
    "slow_sleep_time (app p2)" "\<not> client_connected (app p2)"
    "disconnects (events p2)
       = disconnects (events ?p1) + (if client_connected (app ?p1) then 1 else 0)"
    by blast
  note post = after_branch_frame [OF assms(2), of env p2]
  have "loop_body c env p = Inr (after_branch c env p2)"
    using assms(1) p2(1) by (simp add: loop_body_def)
  moreover have "test_state (app (after_branch c env p2))
      = (if \<not> p_running (TF2 (process_scan env)) then ''no tf2''
         else if \<not> p_running (Discord (process_scan env)) then ''no discord''
         else ''no steam'')"
    using post(3) p2(2) by simp
  moreover have "\<not> client_connected (app (after_branch c env p2))"
    using post(1) p2(4) by simp
  moreover have "disconnects (events (after_branch c env p2))
      = disconnects (events p) + (if client_connected (app p) then 1 else 0)"
    using post(7) p2(5) pre(1,5) by simp
  moreover have "slow_sleep_time (app (after_branch c env p2))"
    using post(4) p2(3) by simp
  ultimately show ?thesis
    by (simp add: sleep_time_def)
qed

lemma missing_program_tick_example:
  "(case loop_body idle (surroundings False False False)
           \<lparr>app = (init menu_state True)\<lparr>rpc_client := Some DiscordIPC, client_connected := True\<rparr>,
            events = []\<rparr> of
      Inl e \<Rightarrow> False
    | Inr p' \<Rightarrow> test_state (app p') = ''no tf2'' \<and> \<not> client_connected (app p')
        \<and> disconnects (events p') = 1 \<and> slow_sleep_time (app p'))"
proof -
  let ?env = "surroundings False False False"
  let ?p = "\<lparr>app = (init menu_state True)\<lparr>rpc_client := Some DiscordIPC, client_connected := True\<rparr>,
            events = []\<rparr>"
  have h1: "gui_alive ?env" by (simp add: surroundings_def)
  have h3: "\<not> (p_running (TF2 (process_scan ?env)) \<and> p_running (Discord (process_scan ?env))
              \<and> p_running (Steam (process_scan ?env)))"
    by (simp add: surroundings_def process_def)
  have h4: "client_connected (app ?p)
      \<longrightarrow> rpc_client (app ?p) \<noteq> None \<and> disconnect_raises ?env = None"
    by (simp add: surroundings_def)
  have tf2: "\<not> p_running (TF2 (process_scan ?env))"
    by (simp add: surroundings_def process_def)
  have conn: "client_connected (app ?p)" by (simp add: init_def)
  from missing_program_tick [OF h1 well_behaved_idle h3 h4, of 5 2] tf2 conn
  show ?thesis by auto
qed

text \<open>
  When \<open>disconnect()\<close> raises, the exception leaves the tick: line 352 stands in no
  \<open>try\<close>, unlike the connect and update calls of \<open>send_rpc_activity\<close>.
\<close>

lemma disconnect_failure_propagates:
  assumes "gui_alive env"
    and "well_behaved c"
    and "\<not> all_three_running env"
    and "client_connected (app p)" and "rpc_client (app p) = Some client"
    and "disconnect_raises env = Some msg"
  shows "loop_body c env p = Inl (Raised msg)"
proof -
  note pre = before_branch_frame [OF assms(2), of env p]
  have "client_connected (app (before_branch c env p))"
    "rpc_client (app (before_branch c env p)) = Some client"
    using assms(4,5) pre(1,2) by simp_all
  from branch_missing_raises [OF assms(3) this assms(6)]
  show ?thesis using assms(1) by (simp add: loop_body_def)
qed

text \<open>
  C7 is not what the code does when the presence client fails to disconnect. After a tick
  with the three programs running, which connects the client, comes a tick with Discord
  gone in which \<open>disconnect()\<close> raises the message that line 380 names for a client that
  cannot reach Discord: the second tick raises that exception instead of ending in the
  state \<open>no discord\<close> with the flag cleared, and the run ends there.
\<close>

theorem disconnect_failure_ends_session:
  "(case run idle [surroundings True True True]
           \<lparr>app = init menu_state True, events = []\<rparr> of
      Inl e \<Rightarrow> False
    | Inr p' \<Rightarrow> client_connected (app p') \<and> rpc_client (app p') = Some DiscordIPC)
   \<and> run idle
        [surroundings True True True,
         (surroundings True False True)
           \<lparr>disconnect_raises := Some ''Can't send data to Discord via IPC.''\<rparr>]
        \<lparr>app = init menu_state True, events = []\<rparr>
     = Inl (Raised ''Can't send data to Discord via IPC.'')"
  by (simp add: tick_defs)

subsection \<open>The class config files\<close>

text \<open>
  C8, as the code has it: over any run of ticks that raises nothing, with well-behaved
  collaborators, \<open>configs.class_config_files\<close> is called on the first tick in which the
  three programs are running and the flag is unset; the flag is then set and nothing in
  main.py unsets it, a tick without the game included. So the call happens once in the
  life of the process if the three programs are ever running together, and not again when
  the game stops and starts anew.
\<close>

theorem class_configs_once:
  assumes "well_behaved c" and "run c envs p = Inr p'"
  shows "has_checked_class_configs (app p')
           = (has_checked_class_configs (app p) \<or> (\<exists>env \<in> set envs. all_three_running env))
       \<and> class_config_runs (events p')
           = class_config_runs (events p)
             + (if \<not> has_checked_class_configs (app p)
                   \<and> (\<exists>env \<in> set envs. all_three_running env) then 1 else 0)"
  using assms(2)
proof (induction envs arbitrary: p)
  case Nil
  then show ?case by simp
next
  case (Cons env envs)
  from Cons.prems obtain q where
    q: "loop_body c env p = Inr q" and rest: "run c envs q = Inr p'"
    by (auto split: sum.splits)
  note tick = loop_body_class_configs [OF assms(1) q]
  note ih = Cons.IH [OF rest]
  show ?case
    using tick ih by auto
qed


theorem class_configs_once_witness:
  "\<exists>p'. run idle [surroundings True True True, surroundings False True True,
                   surroundings True True True]
            \<lparr>app = init menu_state True, events = []\<rparr> = Inr p'
      \<and> has_checked_class_configs (app p')
      \<and> class_config_runs (events p') = 1"
proof -
  let ?envs = "[surroundings True True True, surroundings False True True,
                surroundings True True True]"
  let ?p = "\<lparr>app = init menu_state True, events = []\<rparr>"
  have "\<exists>p'. run idle ?envs ?p = Inr p'"
    by (simp add: tick_defs)
  then obtain p' where h: "run idle ?envs ?p = Inr p'" by blast
  have up: "\<exists>env \<in> set ?envs. all_three_running env"
    by (simp add: surroundings_def process_def)
  have unset: "\<not> has_checked_class_configs (app ?p)"
    by (simp add: init_def)
  from class_configs_once [OF well_behaved_idle h] up unset
  have "has_checked_class_configs (app p') \<and> class_config_runs (events p') = 1"
    by simp
  with h show ?thesis by blast
qed

text \<open>
  C8, as it is stated, fails: after a tick with the three programs and a tick without the
  game the flag is still set, and after a third tick with the game running again the
  class config files have been checked once, not twice.
\<close>

theorem class_configs_again_counterexample:
  "(case run idle [surroundings True True True, surroundings False True True]
           \<lparr>app = init menu_state True, events = []\<rparr> of
      Inl e \<Rightarrow> False
    | Inr p' \<Rightarrow> test_state (app p') = ''no tf2'' \<and> has_checked_class_configs (app p'))
   \<and> (case run idle [surroundings True True True, surroundings False True True,
                      surroundings True True True]
           \<lparr>app = init menu_state True, events = []\<rparr> of
      Inl e \<Rightarrow> False
    | Inr p' \<Rightarrow> test_state (app p') = ''menus'' \<and> class_config_runs (events p') = 1)"
  by (simp add: tick_defs)

subsection \<open>Publishing the presence\<close>

text \<open>
  C9: \<open>send_rpc_activity\<close> catches the first exception of connecting or updating exactly
  when its message is one of the two of line 380: it is then logged as an error, nothing
  is raised and the connected flag is as it was; an exception with any other message is
  raised again; when nothing is raised the connected flag is set. A set flag comes with a
  client object.
\<close>

theorem publish_failures:
  assumes "client_connected (app p) \<longrightarrow> rpc_client (app p) \<noteq> None"
  shows "(case (if client_connected (app p) then update_activity_raises env
                else (case connect_raises env of
                        Some msg \<Rightarrow> Some msg
                      | None \<Rightarrow> update_activity_raises env)) of
            None \<Rightarrow>
              (\<exists>p'. send_rpc_activity env p = Inr p' \<and> client_connected (app p'))
          | Some msg \<Rightarrow>
              if msg = ''Can't send data to Discord via IPC.''
                 \<or> msg = ''Can't connect to Discord Client.''
              then (\<exists>p'. send_rpc_activity env p = Inr p'
                      \<and> client_connected (app p') = client_connected (app p)
                      \<and> last (events p') = Log Error)
              else send_rpc_activity env p = Inl (Raised msg))"
proof (cases "client_connected (app p)")
  case True
  with assms obtain client where "rpc_client (app p) = Some client" by auto
  with True show ?thesis
    by (simp add: send_rpc_activity_def try_send_def Let_def split: option.split)
next
  case False
  then show ?thesis
    by (simp add: send_rpc_activity_def try_send_def Let_def split: option.split)
qed

theorem publish_failures_witness:
  "(case send_rpc_activity
           ((surroundings True True True)\<lparr>connect_raises := Some ''Can't connect to Discord Client.''\<rparr>)
           \<lparr>app = init menu_state True, events = []\<rparr> of
      Inl e \<Rightarrow> False
    | Inr p' \<Rightarrow> \<not> client_connected (app p') \<and> last (events p') = Log Error)
   \<and> send_rpc_activity
       ((surroundings True True True)\<lparr>connect_raises := Some ''[WinError 6]''\<rparr>)
       \<lparr>app = init menu_state True, events = []\<rparr>
     = Inl (Raised ''[WinError 6]'')"
proof -
  let ?p = "\<lparr>app = init menu_state True, events = []\<rparr>"
  have h: "client_connected (app ?p) \<longrightarrow> rpc_client (app ?p) \<noteq> None"
    by (simp add: init_def)
  have nc: "\<not> client_connected (app ?p)" by (simp add: init_def)
  from publish_failures [OF h,
      of "(surroundings True True True)\<lparr>connect_raises := Some ''Can't connect to Discord Client.''\<rparr>"]
    publish_failures [OF h,
      of "(surroundings True True True)\<lparr>connect_raises := Some ''[WinError 6]''\<rparr>"]
    nc
  show ?thesis by (auto simp add: surroundings_def)
qed

end
